theory Spec2Isabelle
  imports Complex_Main "HOL-Library.Multiset" "HOL-Library.Option_ord"
begin

chapter \<open>Hybrid similarity search and deduplication of the MongoDB adapter\<close>

text \<open>
  A shallow embedding of \<^verbatim>\<open>MongoDBDatabaseAdapter\<close>: the Levenshtein engine with its
  reused scratch matrix, cosine similarity, the memory and knowledge search entry points with
  their native and fallback paths, the knowledge scoring pipeline, the result cache, the
  write path \<^verbatim>\<open>createMemory\<close> and \<^verbatim>\<open>getCachedEmbeddings\<close>.

  The adapter object is a record holding its fields and the contents of the collections it
  addresses. What the document store and the JavaScript runtime decide (whether a request is
  rejected, what an approximate vector index returns, the clock, JSON parsing, regular
  expressions with syntax characters, the Unicode case mapping, the order a sort gives under
  an inconsistent comparator) is a parameter of every operation, gathered in the record
  \<open>env\<close>. A thrown exception is the value
  \<open>Inl e\<close>; every operation returns its result together with the adapter afterwards.
\<close>

section \<open>Errors and JavaScript numbers\<close>

text \<open>
  Every \<^verbatim>\<open>throw\<close> of the source, and every exception of the runtime or of the store that
  the source can meet, is a value of \<open>error\<close>. \<open>StoreError n\<close> stands for a failure raised by
  the document store.
\<close>

datatype error =
    InternalLevenshteinError
  | TypeError
  | SyntaxError
  | RangeError
  | DivideByZero
  | StoreError nat

text \<open>
  The numbers of the Levenshtein engine are non-negative integers; \<open>None\<close> stands for the
  values \<^verbatim>\<open>undefined\<close> and \<^verbatim>\<open>NaN\<close> that a read outside an array, or arithmetic on
  such a read, produces.
\<close>

type_synonym jsnumber = "nat option"
type_synonym matrix = "jsnumber list list"

section \<open>The Levenshtein engine\<close>

text \<open>
  A string is the list of its code units.
  \<^verbatim>\<open>matrix[i][j] = v\<close>: inside the row the cell is overwritten; beyond its end a
  JavaScript array grows, leaving holes. \<^verbatim>\<open>matrix[i][j]\<close> outside the row reads
  \<^verbatim>\<open>undefined\<close>. Rows are only addressed at indices the source has checked to exist.
\<close>

definition js_set :: "'a option list \<Rightarrow> nat \<Rightarrow> 'a option \<Rightarrow> 'a option list" where
  "js_set row j v =
     (if j < length row then row[j := v]
      else row @ replicate (j - length row) None @ [v])"

definition cell :: "matrix \<Rightarrow> nat \<Rightarrow> nat \<Rightarrow> jsnumber" where
  "cell M i j = (if i < length M \<and> j < length (M ! i) then M ! i ! j else None)"

definition set_cell :: "matrix \<Rightarrow> nat \<Rightarrow> nat \<Rightarrow> jsnumber \<Rightarrow> matrix" where
  "set_cell M i j v = M[i := js_set (M ! i) j v]"

definition plus1 :: "jsnumber \<Rightarrow> jsnumber" where
  "plus1 x = map_option Suc x"

definition Math_min :: "jsnumber \<Rightarrow> jsnumber \<Rightarrow> jsnumber \<Rightarrow> jsnumber" where
  "Math_min x y z =
     (case (x, y, z) of
        (Some a, Some b, Some c) \<Rightarrow> Some (min a (min b c))
      | _ \<Rightarrow> None)"

text \<open>
  \<^verbatim>\<open>getLevenshteinMatrix(rows, cols)\<close> returns the cached matrix, replaced by a fresh
  \<open>rows \<times> cols\<close> matrix of zeros when it has fewer rows, or its first row fewer columns,
  than requested. The case expression is \<^verbatim>\<open>this.levenshteinMatrix[0]?.length || 0\<close>.
\<close>

definition getLevenshteinMatrix :: "nat \<Rightarrow> nat \<Rightarrow> matrix \<Rightarrow> matrix" where
  "getLevenshteinMatrix rows cols M =
     (if length M < rows
         \<or> (length M > 0 \<and> (case M of [] \<Rightarrow> 0 | r # _ \<Rightarrow> length r) < cols)
         \<or> (length M = 0 \<and> cols > 0)
      then replicate rows (replicate cols (Some 0))
      else M)"

text \<open>
  The first loop of \<^verbatim>\<open>calculateLevenshteinDistanceOptimized\<close>, from \<open>i\<close> up to
  \<open>str1.length\<close>: it throws when row \<open>i\<close> is missing or empty, and otherwise writes
  \<open>matrix[i][0] = i\<close>. The matrix written so far is returned with the error.
\<close>

function init_first_column ::
  "nat \<Rightarrow> nat \<Rightarrow> nat \<Rightarrow> matrix \<Rightarrow> error option \<times> matrix" where
  "init_first_column i len1 expectedCols M =
     (if i \<le> len1 then
        (if \<not> i < length M then (Some InternalLevenshteinError, M)
         else if length (M ! i) < 1 \<and> expectedCols > 0 then (Some InternalLevenshteinError, M)
         else init_first_column (Suc i) len1 expectedCols (set_cell M i 0 (Some i)))
      else (None, M))"
  by pat_completeness auto
termination
  by (relation "measure (\<lambda>(i, len1, c, M). Suc len1 - i)") auto

text \<open>The second loop, \<^verbatim>\<open>matrix[0][j] = j\<close> for \<open>j\<close> from 0 to \<open>str2.length\<close>.\<close>

definition init_first_row :: "nat \<Rightarrow> matrix \<Rightarrow> matrix" where
  "init_first_row len2 M = fold (\<lambda>j M'. set_cell M' 0 j (Some j)) [0..<Suc len2] M"

text \<open>
  The body of the nested loops: on equal characters the diagonal cell is copied, otherwise
  one is added to the least of the diagonal, left and upper cells.
\<close>

definition dp_cell :: "string \<Rightarrow> string \<Rightarrow> nat \<Rightarrow> nat \<Rightarrow> matrix \<Rightarrow> matrix" where
  "dp_cell str1 str2 i j M =
     (if str1 ! (i - 1) = str2 ! (j - 1)
      then set_cell M i j (cell M (i - 1) (j - 1))
      else set_cell M i j
             (Math_min (plus1 (cell M (i - 1) (j - 1)))
                       (plus1 (cell M i (j - 1)))
                       (plus1 (cell M (i - 1) j))))"

definition dp_row :: "string \<Rightarrow> string \<Rightarrow> nat \<Rightarrow> matrix \<Rightarrow> matrix" where
  "dp_row str1 str2 i M = fold (dp_cell str1 str2 i) [1..<Suc (length str2)] M"

definition dp_rows :: "string \<Rightarrow> string \<Rightarrow> matrix \<Rightarrow> matrix" where
  "dp_rows str1 str2 M = fold (dp_row str1 str2) [1..<Suc (length str1)] M"

text \<open>
  The whole method. It returns the distance, or the thrown error, together with the scratch
  matrix it leaves in \<^verbatim>\<open>this.levenshteinMatrix\<close>.
\<close>

definition calculateLevenshteinDistanceOptimized ::
  "string \<Rightarrow> string \<Rightarrow> matrix \<Rightarrow> (error + jsnumber) \<times> matrix" where
  "calculateLevenshteinDistanceOptimized a b M =
     (if a = b then (Inr (Some 0), M)
      else if length a = 0 then (Inr (Some (length b)), M)
      else if length b = 0 then (Inr (Some (length a)), M)
      else
        let str1 = (if length a > length b then b else a);
            str2 = (if length a > length b then a else b);
            M1 = getLevenshteinMatrix (length str1 + 1) (length str2 + 1) M;
            expectedRows = length str1 + 1;
            expectedCols = length str2 + 1
        in if length M1 < expectedRows then (Inl InternalLevenshteinError, M1)
           else
             (case init_first_column 0 (length str1) expectedCols M1 of
                (Some e, M2) \<Rightarrow> (Inl e, M2)
              | (None, M2) \<Rightarrow>
                  if length M2 = 0 then (Inl InternalLevenshteinError, M2)
                  else if length (M2 ! 0) < expectedCols then (Inl InternalLevenshteinError, M2)
                  else
                    let M3 = init_first_row (length str2) M2;
                        M4 = dp_rows str1 str2 M3
                    in (Inr (cell M4 (length str1) (length str2)), M4)))"

text \<open>
  The reference the engine is compared with, following the specification's words: the
  textbook dynamic-programming table of the edit distance with unit-cost insertion, deletion
  and substitution. \<open>textbook_table a b i j\<close> is the entry for the first \<open>i\<close> characters of
  \<open>a\<close> and the first \<open>j\<close> characters of \<open>b\<close>; nothing is shared between two evaluations.
\<close>

fun textbook_table :: "string \<Rightarrow> string \<Rightarrow> nat \<Rightarrow> nat \<Rightarrow> nat" where
  "textbook_table a b 0 j = j"
| "textbook_table a b (Suc i) 0 = Suc i"
| "textbook_table a b (Suc i) (Suc j) =
     min (textbook_table a b i (Suc j) + 1)
       (min (textbook_table a b (Suc i) j + 1)
            (textbook_table a b i j + (if a ! i = b ! j then 0 else 1)))"

definition textbook_distance :: "string \<Rightarrow> string \<Rightarrow> nat" where
  "textbook_distance a b = textbook_table a b (length a) (length b)"

text \<open>
  Two predicates used in the proofs: a matrix all of whose rows have the length of the first,
  and the invariant of the nested loops (rows below \<open>i\<close> and the cells of row \<open>i\<close> left of
  column \<open>k\<close> hold the textbook entries).
\<close>

definition rectangular :: "matrix \<Rightarrow> bool" where
  "rectangular M = (\<forall>r \<in> set M. length r = (case M of [] \<Rightarrow> 0 | r0 # _ \<Rightarrow> length r0))"

definition dp_invariant :: "string \<Rightarrow> string \<Rightarrow> nat list \<Rightarrow> nat \<Rightarrow> nat \<Rightarrow> matrix \<Rightarrow> bool" where
  "dp_invariant a b S i k M =
     (map length M = S
      \<and> (\<forall>r \<le> length a. cell M r 0 = Some r)
      \<and> (\<forall>r < i. \<forall>c \<le> length b. cell M r c = Some (textbook_table a b r c))
      \<and> (\<forall>c < k. cell M i c = Some (textbook_table a b i c)))"

text \<open>
  The scratch matrix left by a sequence of calls on one adapter instance, starting from the
  matrix \<open>M\<close>; a fresh instance starts from \<open>[]\<close>.
\<close>

definition levenshtein_calls :: "(string \<times> string) list \<Rightarrow> matrix \<Rightarrow> matrix" where
  "levenshtein_calls calls M =
     fold (\<lambda>(a, b) M'. snd (calculateLevenshteinDistanceOptimized a b M')) calls M"

text \<open>
  The dimensions a call asks of the matrix once it is past the early returns: one more than
  the shorter length in rows, one more than the longer length in columns.
\<close>

definition row0_length :: "matrix \<Rightarrow> nat" where
  "row0_length M = (case M of [] \<Rightarrow> 0 | r # _ \<Rightarrow> length r)"

definition required_rows :: "string \<Rightarrow> string \<Rightarrow> nat" where
  "required_rows a b = min (length a) (length b) + 1"

definition required_cols :: "string \<Rightarrow> string \<Rightarrow> nat" where
  "required_cols a b = max (length a) (length b) + 1"

section \<open>Data model\<close>

text \<open>
  Identifiers are strings. The numbers of embeddings and scores are real numbers, and the
  arithmetic on them is exact: the rounding of a double, its overflow to an infinity on
  components of very large magnitude and its underflow to zero on very small ones are not
  represented. \<open>None\<close> stands for \<^verbatim>\<open>NaN\<close> or a missing field. Structured content is
  a JSON value.
\<close>

type_synonym uuid = string
type_synonym jsreal = "real option"

datatype json =
    JNull
  | JBool bool
  | JNumber real
  | JString string
  | JArray "json list"
  | JObject "(string \<times> json) list"

text \<open>\<^verbatim>\<open>createdAt\<close> is a date, a number of milliseconds, or a string still to be parsed.\<close>

datatype created = CreatedDate nat | CreatedNumber "nat option" | CreatedString string

text \<open>
  The requests the adapter sends to the store; the adapter record keeps the sequence of the
  requests issued so far. \<open>NativeVectorSearch\<close> is an aggregation that starts with a
  \<^verbatim>\<open>$search.vectorSearch\<close> stage, \<open>TextSearch\<close> one that starts with a text
  \<^verbatim>\<open>$search\<close> stage, \<open>Aggregate\<close> any other aggregation; the string is the collection.
\<close>

datatype request =
    NativeVectorSearch string
  | TextSearch string
  | Aggregate string
  | Find string
  | FindOne string
  | InsertOne string
  | UpdateOne string

text \<open>
  \<open>memory\<close> is the argument of \<^verbatim>\<open>createMemory\<close>, \<open>memory_doc\<close> a document of the
  collection \<^verbatim>\<open>memories\<close>, \<open>found_memory\<close> an element of a search result (the fallback
  adds the field \<^verbatim>\<open>similarity\<close>).
\<close>

record memory =
  mem_id :: "uuid option"
  mem_userId :: uuid
  mem_agentId :: uuid
  mem_roomId :: uuid
  mem_content :: json
  mem_embedding :: "real list option"
  mem_createdAt :: "nat option"

record memory_doc =
  md_id :: uuid
  md_type :: string
  md_content :: json
  md_embedding :: "real list option"
  md_userId :: uuid
  md_roomId :: uuid
  md_agentId :: uuid
  md_unique :: bool
  md_createdAt :: created

record found_memory =
  fm_doc :: memory_doc
  fm_similarity :: "jsreal option"

text \<open>
  \<open>knowledge_doc\<close> is the interface \<^verbatim>\<open>KnowledgeDocument\<close>. A \<open>candidate\<close> is a document
  entering the scoring stages, with the \<^verbatim>\<open>vectorSearchScore\<close> metadata the vector-search
  stage attached to it (none for a document that did not come from that stage); \<open>scored\<close> is
  the document with the three fields the scoring stages add.
\<close>

record knowledge_doc =
  kd_id :: uuid
  kd_agentId :: "uuid option"
  kd_content :: json
  kd_embedding :: "real list option"
  kd_createdAt :: created
  kd_isMain :: bool
  kd_originalId :: "string option"
  kd_chunkIndex :: "nat option"
  kd_isShared :: bool

record candidate =
  c_doc :: knowledge_doc
  c_vectorSearchScore :: "real option"

record scored =
  s_doc :: knowledge_doc
  vectorScore :: jsreal
  keywordScore :: real
  combinedScore :: jsreal

text \<open>
  An element of the list \<^verbatim>\<open>searchKnowledge\<close> returns when it computes the result. On a
  cache hit it returns whatever \<^verbatim>\<open>JSON.parse\<close> makes of the cached string.
\<close>

record rag_item =
  ri_id :: uuid
  ri_agentId :: "uuid option"
  ri_content :: json
  ri_embedding :: "real list option"
  ri_createdAt :: created
  ri_similarity :: real

datatype knowledge_results = FromCache json | Computed "rag_item list"

record cache_doc =
  cd_key :: string
  cd_agentId :: uuid
  cd_value :: string
  cd_createdAt :: nat
  cd_expiresAt :: nat

text \<open>
  The filter \<^verbatim>\<open>{type, roomId, unique, agentId}\<close> of the memory searches; \<open>mq_unique\<close>
  tells whether \<^verbatim>\<open>unique: true\<close> is part of it. Then the parameter objects of the entry
  points.
\<close>

record memory_query =
  mq_type :: string
  mq_roomId :: "uuid option"
  mq_unique :: bool
  mq_agentId :: "uuid option"

record search_params =
  sp_tableName :: string
  sp_roomId :: uuid
  sp_agentId :: "uuid option"
  sp_embedding :: "real list"
  sp_match_threshold :: real
  sp_match_count :: nat
  sp_unique :: bool

record embedding_params =
  ep_match_threshold :: "real option"
  ep_count :: "nat option"
  ep_roomId :: "uuid option"
  ep_agentId :: uuid
  ep_unique :: "bool option"
  ep_tableName :: string

record knowledge_params =
  kp_agentId :: uuid
  kp_embedding :: "real list"
  kp_match_threshold :: real
  kp_match_count :: nat
  kp_searchText :: "string option"

record cached_opts =
  query_table_name :: string
  query_threshold :: real
  query_input :: string
  query_field_name :: string
  query_field_sub_name :: string
  query_match_count :: nat

text \<open>
  An element of the list \<^verbatim>\<open>getCachedEmbeddings\<close> returns: the record
  \<^verbatim>\<open>{embedding, levenshtein_score}\<close>, or the empty array its catch block returns.
\<close>

datatype cached_embedding =
    Scored "real list option" jsnumber
  | EmptyArray

text \<open>
  What the adapter does not decide. \<open>store_fault\<close> tells which requests the store rejects,
  and with which error. \<open>bootstrap_fault\<close> is the first failure of \<^verbatim>\<open>db.connect\<close> or of
  the index bootstrap, the next three fields are the answers to the probes of
  \<^verbatim>\<open>initializeVectorSearch\<close>. The three search functions are what the store's
  vector-search stage, given query vector, \<^verbatim>\<open>numCandidates\<close> and \<^verbatim>\<open>limit\<close>, and
  its text-search stage return on a collection. \<open>regex_engine\<close> compiles a pattern that
  contains regular-expression syntax. \<open>JSON_stringify_elements\<close> renders the elements of an
  array. \<open>toLowerCase_unicode\<close> is \<^verbatim>\<open>String.prototype.toLowerCase\<close> on a string
  with a character outside ASCII. The two sort engines are what \<^verbatim>\<open>Array.prototype.sort\<close>
  makes of a list on which the comparator is not consistent, where the language leaves the
  order to the implementation. \<open>levenshtein_array_like\<close> is what the Levenshtein method does
  when its second argument is an array, or an object with a \<^verbatim>\<open>length\<close> entry.
\<close>

record env =
  Date_now :: nat
  Date_parse :: "string \<Rightarrow> nat option"
  uuid_v4 :: uuid
  JSON_parse :: "string \<Rightarrow> error + json"
  JSON_stringify_elements :: "rag_item list \<Rightarrow> string"
  regex_engine :: "string \<Rightarrow> error + (string \<Rightarrow> bool)"
  bootstrap_fault :: "error option"
  serverStatus_vectorSearch :: "error + bool"
  createVectorIndexes_fault :: "error option"
  sharded :: "error + bool"
  store_fault :: "request \<Rightarrow> error option"
  vectorSearch_memories :: "real list \<Rightarrow> nat \<Rightarrow> nat option \<Rightarrow> memory_doc list \<Rightarrow> memory_doc list"
  vectorSearch_knowledge :: "real list \<Rightarrow> nat \<Rightarrow> nat \<Rightarrow> knowledge_doc list \<Rightarrow> (knowledge_doc \<times> real) list"
  textSearch_memories :: "cached_opts \<Rightarrow> memory_doc list \<Rightarrow> (memory_doc \<times> real) list"
  toLowerCase_unicode :: "string \<Rightarrow> string"
  sort_engine_memories :: "(memory_doc \<times> jsreal) list \<Rightarrow> (memory_doc \<times> jsreal) list"
  sort_engine_embeddings :: "cached_embedding list \<Rightarrow> cached_embedding list"
  levenshtein_array_like :: "string \<Rightarrow> json \<Rightarrow> matrix \<Rightarrow> (error + jsnumber) \<times> matrix"

text \<open>
  The adapter instance: its four fields, the collections behind its database handle, the
  requests it has issued and the errors it has written to the console or the logger.
\<close>

record adapter =
  hasVectorSearch :: bool
  isConnected :: bool
  isVectorSearchIndexComputable :: bool
  levenshteinMatrix :: matrix
  db_memories :: "memory_doc list"
  db_knowledge :: "knowledge_doc list"
  db_cache :: "cache_doc list"
  requests :: "request list"
  console :: "error list"

section \<open>Helpers\<close>

definition issue :: "request \<Rightarrow> adapter \<Rightarrow> adapter" where
  "issue r st = st\<lparr>requests := requests st @ [r]\<rparr>"

definition log_error :: "error \<Rightarrow> adapter \<Rightarrow> adapter" where
  "log_error e st = st\<lparr>console := console st @ [e]\<rparr>"

text \<open>\<^verbatim>\<open>Array.prototype.map\<close> with a callback that may throw: the first throw ends it.\<close>

fun mapE :: "('a \<Rightarrow> error + 'b) \<Rightarrow> 'a list \<Rightarrow> error + 'b list" where
  "mapE f [] = Inr []"
| "mapE f (x # xs) =
     (case f x of
        Inl e \<Rightarrow> Inl e
      | Inr y \<Rightarrow> (case mapE f xs of Inl e \<Rightarrow> Inl e | Inr ys \<Rightarrow> Inr (y # ys)))"

text \<open>
  A stable insertion sort, an element going before the first one it does not compare greater
  than: the \<^verbatim>\<open>$sort\<close> stage on a numeric key.
\<close>

fun js_insert :: "('a \<Rightarrow> 'a \<Rightarrow> real) \<Rightarrow> 'a \<Rightarrow> 'a list \<Rightarrow> 'a list" where
  "js_insert cmp x [] = [x]"
| "js_insert cmp x (y # ys) = (if cmp x y \<le> 0 then x # y # ys else y # js_insert cmp x ys)"

definition js_sort :: "('a \<Rightarrow> 'a \<Rightarrow> real) \<Rightarrow> 'a list \<Rightarrow> 'a list" where
  "js_sort cmp xs = foldr (js_insert cmp) xs []"

text \<open>
  \<^verbatim>\<open>Array.prototype.sort\<close> with a comparator. When the comparator is consistent on
  the elements (every element equal to itself, equality symmetric and transitive, less and
  greater transitive) the result is that of the stable sort. Otherwise the order is
  implementation-defined, and is what the engine makes of the list.
\<close>

definition consistent_comparator :: "('a \<Rightarrow> 'a \<Rightarrow> real) \<Rightarrow> 'a list \<Rightarrow> bool" where
  "consistent_comparator cmp xs =
     list_all (\<lambda>a. cmp a a = 0
       \<and> list_all (\<lambda>b. (if cmp a b = 0 then cmp b a = 0 else True)
           \<and> list_all (\<lambda>c. (if cmp a b = 0 \<and> cmp b c = 0 then cmp a c = 0 else True)
                          \<and> (if cmp a b < 0 \<and> cmp b c < 0 then cmp a c < 0 else True)
                          \<and> (if cmp a b > 0 \<and> cmp b c > 0 then cmp a c > 0 else True))
                 xs) xs) xs"

definition Array_sort :: "('a list \<Rightarrow> 'a list) \<Rightarrow> ('a \<Rightarrow> 'a \<Rightarrow> real) \<Rightarrow> 'a list \<Rightarrow> 'a list" where
  "Array_sort engine cmp xs =
     (if consistent_comparator cmp xs then js_sort cmp xs else engine xs)"

text \<open>A step of a field path of the store: the entry of an object, missing elsewhere.\<close>

definition json_get :: "json \<Rightarrow> string \<Rightarrow> json option" where
  "json_get j k = (case j of JObject kvs \<Rightarrow> map_of kvs k | _ \<Rightarrow> None)"

section \<open>Connection and capability detection\<close>

text \<open>
  \<^verbatim>\<open>initializeVectorSearch\<close> sets the capability flag: native search is enabled only when
  the server reports support, the adapter has not ruled it out before, the vector indexes
  can be created and the collection is not sharded. It never throws.
\<close>

definition initializeVectorSearch :: "env \<Rightarrow> adapter \<Rightarrow> adapter" where
  "initializeVectorSearch env st =
     (case serverStatus_vectorSearch env of
        Inl e \<Rightarrow>
          log_error e (st\<lparr>isVectorSearchIndexComputable := False, hasVectorSearch := False\<rparr>)
      | Inr vectorSearchSupported \<Rightarrow>
          if vectorSearchSupported \<and> isVectorSearchIndexComputable st then
            (case createVectorIndexes_fault env of
               Some e \<Rightarrow>
                 log_error e (st\<lparr>isVectorSearchIndexComputable := False, hasVectorSearch := False\<rparr>)
             | None \<Rightarrow>
                 (case sharded env of
                    Inl e \<Rightarrow>
                      log_error e
                        (st\<lparr>isVectorSearchIndexComputable := False, hasVectorSearch := False\<rparr>)
                  | Inr sh \<Rightarrow>
                      if sh
                      then st\<lparr>isVectorSearchIndexComputable := False, hasVectorSearch := False\<rparr>
                      else st\<lparr>hasVectorSearch := True\<rparr>))
          else st\<lparr>isVectorSearchIndexComputable := False, hasVectorSearch := False\<rparr>)"

definition init :: "env \<Rightarrow> adapter \<Rightarrow> error option \<times> adapter" where
  "init env st =
     (if isConnected st then (None, st)
      else
        (case bootstrap_fault env of
           Some e \<Rightarrow>
             (Some e, log_error e (st\<lparr>isConnected := False, isVectorSearchIndexComputable := False\<rparr>))
         | None \<Rightarrow> (None, (initializeVectorSearch env st)\<lparr>isConnected := True\<rparr>)))"

definition ensureConnection :: "env \<Rightarrow> adapter \<Rightarrow> error option \<times> adapter" where
  "ensureConnection env st = (if \<not> isConnected st then init env st else (None, st))"

section \<open>Memory search\<close>

text \<open>
  \<^verbatim>\<open>cosineSimilarity\<close>. A second vector shorter than the first makes a product with
  \<^verbatim>\<open>undefined\<close>, and a zero magnitude makes \<open>0 / 0\<close>: both give \<^verbatim>\<open>NaN\<close>. The
  sums, the square roots and the quotient are those of the real numbers.
\<close>

definition cosineSimilarity :: "real list \<Rightarrow> real list \<Rightarrow> jsreal" where
  "cosineSimilarity a b =
     (if length b < length a then None
      else
        let dotProduct = foldl (\<lambda>sum (val, bi). sum + val * bi) 0 (zip a b);
            magnitudeA = sqrt (foldl (\<lambda>sum val. sum + val * val) 0 a);
            magnitudeB = sqrt (foldl (\<lambda>sum val. sum + val * val) 0 b)
        in if magnitudeA * magnitudeB = 0 then None
           else Some (dotProduct / (magnitudeA * magnitudeB)))"

definition matches_query :: "memory_query \<Rightarrow> memory_doc \<Rightarrow> bool" where
  "matches_query q d =
     (md_type d = mq_type q
      \<and> (case mq_roomId q of None \<Rightarrow> True | Some r \<Rightarrow> md_roomId d = r)
      \<and> (if mq_unique q then md_unique d else True)
      \<and> (case mq_agentId q of None \<Rightarrow> True | Some a \<Rightarrow> md_agentId d = a))"

text \<open>A string in a boolean position: absent and empty strings count as false.\<close>

definition truthy :: "string option \<Rightarrow> string option" where
  "truthy s = (case s of None \<Rightarrow> None | Some t \<Rightarrow> if t = [] then None else Some t)"

text \<open>
  The normalisation every search applies to a returned record: a string \<^verbatim>\<open>createdAt\<close> is
  parsed as a date, a string \<^verbatim>\<open>content\<close> is parsed as JSON, which may throw.
\<close>

definition normalize_created :: "env \<Rightarrow> created \<Rightarrow> created" where
  "normalize_created env c =
     (case c of CreatedString s \<Rightarrow> CreatedNumber (Date_parse env s) | _ \<Rightarrow> c)"

definition normalize_content :: "env \<Rightarrow> json \<Rightarrow> error + json" where
  "normalize_content env c = (case c of JString s \<Rightarrow> JSON_parse env s | _ \<Rightarrow> Inr c)"

definition normalize_memory :: "env \<Rightarrow> memory_doc \<Rightarrow> error + memory_doc" where
  "normalize_memory env m =
     (case normalize_content env (md_content m) of
        Inl e \<Rightarrow> Inl e
      | Inr c \<Rightarrow>
          Inr (m\<lparr>md_createdAt := normalize_created env (md_createdAt m), md_content := c\<rparr>))"

text \<open>
  The comparator \<^verbatim>\<open>(a, b) => b.similarity - a.similarity\<close>; a \<^verbatim>\<open>NaN\<close> difference
  counts as 0.
\<close>

definition compare_similarity ::
  "memory_doc \<times> jsreal \<Rightarrow> memory_doc \<times> jsreal \<Rightarrow> real" where
  "compare_similarity a b =
     (case (snd b, snd a) of (Some sb, Some sa) \<Rightarrow> sb - sa | _ \<Rightarrow> 0)"

text \<open>
  \<^verbatim>\<open>searchMemoriesFallback\<close>: a plain find with the filter, limited to
  \<^verbatim>\<open>params.limit || 10\<close> documents, sorted by descending cosine similarity.
  \<^verbatim>\<open>Array.from\<close> throws a TypeError on a stored embedding that is \<^verbatim>\<open>null\<close>.
\<close>

definition searchMemoriesFallback ::
  "env \<Rightarrow> real list \<Rightarrow> memory_query \<Rightarrow> nat option \<Rightarrow> adapter
     \<Rightarrow> (error + found_memory list) \<times> adapter" where
  "searchMemoriesFallback env embedding query limit st =
     (case ensureConnection env st of
        (Some e, st1) \<Rightarrow> (Inl e, st1)
      | (None, st1) \<Rightarrow>
          let st2 = issue (Find ''memories'') st1 in
          (case store_fault env (Find ''memories'') of
             Some e \<Rightarrow> (Inl e, st2)
           | None \<Rightarrow>
               let memories =
                     take (case limit of None \<Rightarrow> 10 | Some l \<Rightarrow> if l = 0 then 10 else l)
                       (filter (matches_query query) (db_memories st2))
               in
               (case mapE (\<lambda>m. case md_embedding m of
                                   None \<Rightarrow> Inl TypeError
                                 | Some b \<Rightarrow> Inr (m, cosineSimilarity embedding b))
                       memories of
                  Inl e \<Rightarrow> (Inl e, st2)
                | Inr withSimilarity \<Rightarrow>
                    (case mapE (\<lambda>(m, s). case normalize_memory env m of
                                        Inl e \<Rightarrow> Inl e
                                      | Inr n \<Rightarrow> Inr \<lparr>fm_doc = n, fm_similarity = Some s\<rparr>)
                            (Array_sort (sort_engine_memories env) compare_similarity
                               withSimilarity) of
                       Inl e \<Rightarrow> (Inl e, st2)
                     | Inr found \<Rightarrow> (Inr found, st2)))))"

text \<open>
  The aggregation \<^verbatim>\<open>[{$search: {vectorSearch: ...}}, {$match: query}]\<close> on
  \<^verbatim>\<open>memories\<close>.
\<close>

definition aggregate_vectorSearch_memories ::
  "env \<Rightarrow> real list \<Rightarrow> nat \<Rightarrow> nat option \<Rightarrow> memory_query \<Rightarrow> adapter
     \<Rightarrow> (error + memory_doc list) \<times> adapter" where
  "aggregate_vectorSearch_memories env queryVector numCandidates limit query st =
     (let st1 = issue (NativeVectorSearch ''memories'') st in
      case store_fault env (NativeVectorSearch ''memories'') of
        Some e \<Rightarrow> (Inl e, st1)
      | None \<Rightarrow>
          (Inr (filter (matches_query query)
                  (vectorSearch_memories env queryVector numCandidates limit (db_memories st1))),
           st1))"

text \<open>
  \<^verbatim>\<open>searchMemories\<close>. The \<^verbatim>\<open>try\<close> block covers the aggregation and the
  normalisation of its result; its \<^verbatim>\<open>catch\<close> logs and returns the fallback's result.
  \<^verbatim>\<open>match_threshold\<close> is not read.
\<close>

definition searchMemories ::
  "env \<Rightarrow> search_params \<Rightarrow> adapter \<Rightarrow> (error + found_memory list) \<times> adapter" where
  "searchMemories env params st =
     (case ensureConnection env st of
        (Some e, st1) \<Rightarrow> (Inl e, st1)
      | (None, st1) \<Rightarrow>
          let query = \<lparr>mq_type = sp_tableName params, mq_roomId = Some (sp_roomId params),
                       mq_unique = sp_unique params, mq_agentId = truthy (sp_agentId params)\<rparr>
          in
          if hasVectorSearch st1 then
            (case aggregate_vectorSearch_memories env (sp_embedding params)
                    (sp_match_count params * 2) (Some (sp_match_count params)) query st1 of
               (Inl e, st2) \<Rightarrow>
                 searchMemoriesFallback env (sp_embedding params) query
                   (Some (sp_match_count params)) (log_error e st2)
             | (Inr memories, st2) \<Rightarrow>
                 (case mapE (normalize_memory env) memories of
                    Inl e \<Rightarrow>
                      searchMemoriesFallback env (sp_embedding params) query
                        (Some (sp_match_count params)) (log_error e st2)
                  | Inr ms \<Rightarrow>
                      (Inr (map (\<lambda>m. \<lparr>fm_doc = m, fm_similarity = None\<rparr>) ms), st2)))
          else
            searchMemoriesFallback env (sp_embedding params) query
              (Some (sp_match_count params)) st1)"

text \<open>\<^verbatim>\<open>searchMemoriesByEmbedding\<close>: the aggregation, with no \<^verbatim>\<open>try\<close> around it.\<close>

definition searchMemoriesByEmbedding ::
  "env \<Rightarrow> real list \<Rightarrow> embedding_params \<Rightarrow> adapter
     \<Rightarrow> (error + found_memory list) \<times> adapter" where
  "searchMemoriesByEmbedding env embedding params st =
     (case ensureConnection env st of
        (Some e, st1) \<Rightarrow> (Inl e, st1)
      | (None, st1) \<Rightarrow>
          (case aggregate_vectorSearch_memories env embedding
                  ((case ep_count params of None \<Rightarrow> 10 | Some c \<Rightarrow> c) * 2) (ep_count params)
                  \<lparr>mq_type = ep_tableName params, mq_roomId = truthy (ep_roomId params),
                   mq_unique = (ep_unique params = Some True),
                   mq_agentId = Some (ep_agentId params)\<rparr> st1 of
             (Inl e, st2) \<Rightarrow> (Inl e, st2)
           | (Inr memories, st2) \<Rightarrow>
               (case mapE (normalize_memory env) memories of
                  Inl e \<Rightarrow> (Inl e, st2)
                | Inr ms \<Rightarrow>
                    (Inr (map (\<lambda>m. \<lparr>fm_doc = m, fm_similarity = None\<rparr>) ms), st2))))"

section \<open>Knowledge search\<close>

text \<open>
  Lower-casing. The \<^verbatim>\<open>$toLower\<close> operator of the store changes the letters A to Z and
  nothing else. \<^verbatim>\<open>String.prototype.toLowerCase\<close> does the same on a string of ASCII
  characters; on any other string it follows the Unicode case mapping, which is left to the
  runtime.
\<close>

definition toLower :: "string \<Rightarrow> string" where
  "toLower s =
     map (\<lambda>c. let n = (of_char c :: nat) in if 65 \<le> n \<and> n \<le> 90 then char_of (n + 32) else c) s"

definition toLowerCase :: "env \<Rightarrow> string \<Rightarrow> string" where
  "toLowerCase env s =
     (if list_all (\<lambda>c. (of_char c :: nat) < 128) s then toLower s
      else toLowerCase_unicode env s)"

text \<open>
  Containment of a string in another, and the construction of a regular expression from a
  string: a pattern without syntax characters matches exactly the inputs that contain it,
  any other pattern is left to the engine, which may reject it with a SyntaxError.
\<close>

fun contains :: "string \<Rightarrow> string \<Rightarrow> bool" where
  "contains [] p = (p = [])"
| "contains (c # cs) p = (take (length p) (c # cs) = p \<or> contains cs p)"

definition regex_syntax_character :: "char \<Rightarrow> bool" where
  "regex_syntax_character c = (c \<in> set ''^$.|?*+()[]{}'' \<or> c = CHR 0x5C)"

definition RegExp :: "env \<Rightarrow> string \<Rightarrow> error + (string \<Rightarrow> bool)" where
  "RegExp env pattern =
     (if list_ex regex_syntax_character pattern then regex_engine env pattern
      else Inr (\<lambda>input. contains input pattern))"

text \<open>
  The field paths \<^verbatim>\<open>$content.text\<close> and \<^verbatim>\<open>$content.metadata.<flag>\<close>. A text that
  is missing, or a content that is still a string, lower-cases to the empty string; a flag
  counts when it is the boolean true. The text of a content is a string by its declared
  type; a value of another type at the path is read as a missing text.
\<close>

definition content_text :: "json \<Rightarrow> string" where
  "content_text c = (case json_get c ''text'' of Some (JString s) \<Rightarrow> s | _ \<Rightarrow> [])"

definition metadata_flag :: "json \<Rightarrow> string \<Rightarrow> bool" where
  "metadata_flag c k =
     (case json_get c ''metadata'' of
        Some m \<Rightarrow> json_get m k = Some (JBool True)
      | None \<Rightarrow> False)"

text \<open>
  \<^verbatim>\<open>calculateKeywordScore\<close>: the regular expression is built once, when the pipeline is
  built; the result is the expression evaluated on a document.
\<close>

definition calculateKeywordScore ::
  "env \<Rightarrow> string option \<Rightarrow> error + (knowledge_doc \<Rightarrow> real)" where
  "calculateKeywordScore env searchText =
     (case (case truthy searchText of
              Some s \<Rightarrow>
                (case RegExp env (toLowerCase env s) of
                   Inl e \<Rightarrow> Inl e
                 | Inr regex \<Rightarrow> Inr (\<lambda>d. regex (toLower (content_text (kd_content d)))))
            | None \<Rightarrow> Inr (\<lambda>d. False)) of
        Inl e \<Rightarrow> Inl e
      | Inr regexMatch \<Rightarrow>
          Inr (\<lambda>d. (if regexMatch d then 3.0 else 1.0)
                   * (if metadata_flag (kd_content d) ''isChunk'' then 1.5
                      else if metadata_flag (kd_content d) ''isMain'' then 1.2 else 1.0)))"

text \<open>
  The expression for \<^verbatim>\<open>vectorScore\<close>: the metadata of the vector search when the flag
  reads native-available; otherwise 0 for a missing or empty embedding and
  \<open>1 / (1 + cosineSimilarity)\<close> for the others, where \<^verbatim>\<open>$divide\<close> fails on a zero
  divisor and \<^verbatim>\<open>NaN\<close> propagates.
\<close>

definition vectorScore_of :: "bool \<Rightarrow> real list \<Rightarrow> candidate \<Rightarrow> error + jsreal" where
  "vectorScore_of hasVS queryEmbedding c =
     (if hasVS then Inr (c_vectorSearchScore c)
      else
        let embedding = (case kd_embedding (c_doc c) of None \<Rightarrow> [] | Some e \<Rightarrow> e) in
        if length embedding = 0 then Inr (Some 0)
        else
          (case cosineSimilarity queryEmbedding embedding of
             None \<Rightarrow> Inr None
           | Some similarity \<Rightarrow>
               if 1 + similarity = 0 then Inl DivideByZero
               else Inr (Some (1 / (1 + similarity)))))"

text \<open>The \<^verbatim>\<open>$match\<close> stage of the pipeline; a missing or NaN score matches neither bound.\<close>

definition accepted :: "real \<Rightarrow> scored \<Rightarrow> bool" where
  "accepted match_threshold s =
     (case vectorScore s of
        None \<Rightarrow> False
      | Some v \<Rightarrow> v \<ge> match_threshold \<or> (keywordScore s > 1.0 \<and> v \<ge> 0.3))"

text \<open>\<^verbatim>\<open>{$sort: {combinedScore: -1}}\<close>: descending, a missing score after every number.\<close>

definition compare_combinedScore :: "scored \<Rightarrow> scored \<Rightarrow> real" where
  "compare_combinedScore a b =
     (case (combinedScore a, combinedScore b) of
        (Some x, Some y) \<Rightarrow> y - x
      | (None, Some y) \<Rightarrow> 1
      | (Some x, None) \<Rightarrow> - 1
      | (None, None) \<Rightarrow> 0)"

text \<open>
  \<^verbatim>\<open>getKnowledgeSearchPipeline\<close>: building the stages may throw (the regular expression);
  the stages are then a function from the candidates to the documents they let through.
\<close>

definition getKnowledgeSearchPipeline ::
  "env \<Rightarrow> bool \<Rightarrow> knowledge_params \<Rightarrow> error + (candidate list \<Rightarrow> error + scored list)" where
  "getKnowledgeSearchPipeline env hasVS params =
     (case calculateKeywordScore env (kp_searchText params) of
        Inl e \<Rightarrow> Inl e
      | Inr keyword \<Rightarrow>
          Inr (\<lambda>candidates.
            case mapE (\<lambda>c. case vectorScore_of hasVS (kp_embedding params) c of
                               Inl e \<Rightarrow> Inl e
                             | Inr v \<Rightarrow>
                                 Inr \<lparr>s_doc = c_doc c, vectorScore = v,
                                      keywordScore = keyword (c_doc c),
                                      combinedScore = map_option (\<lambda>x. x * keyword (c_doc c)) v\<rparr>)
                   candidates of
              Inl e \<Rightarrow> Inl e
            | Inr withScores \<Rightarrow>
                Inr (js_sort compare_combinedScore
                       (filter (accepted (kp_match_threshold params)) withScores))))"

text \<open>
  The two searches prepend their own first stage: the vector search of the store, asking for
  \<open>match_count * 2\<close> candidates, or the filter on the owning agent and shared records.
\<close>

definition vectorSearchKnowledge ::
  "env \<Rightarrow> knowledge_params \<Rightarrow> adapter \<Rightarrow> (error + scored list) \<times> adapter" where
  "vectorSearchKnowledge env params st =
     (case getKnowledgeSearchPipeline env (hasVectorSearch st) params of
        Inl e \<Rightarrow> (Inl e, st)
      | Inr pipeline \<Rightarrow>
          let st1 = issue (NativeVectorSearch ''knowledge'') st in
          (case store_fault env (NativeVectorSearch ''knowledge'') of
             Some e \<Rightarrow> (Inl e, st1)
           | None \<Rightarrow>
               (pipeline
                  (map (\<lambda>(d, score). \<lparr>c_doc = d, c_vectorSearchScore = Some score\<rparr>)
                     (vectorSearch_knowledge env (kp_embedding params)
                        (kp_match_count params * 2) (kp_match_count params * 2)
                        (db_knowledge st1))),
                st1)))"

definition fallbackSearchKnowledge ::
  "env \<Rightarrow> knowledge_params \<Rightarrow> adapter \<Rightarrow> (error + scored list) \<times> adapter" where
  "fallbackSearchKnowledge env params st =
     (case getKnowledgeSearchPipeline env (hasVectorSearch st) params of
        Inl e \<Rightarrow> (Inl e, st)
      | Inr pipeline \<Rightarrow>
          let st1 = issue (Aggregate ''knowledge'') st in
          (case store_fault env (Aggregate ''knowledge'') of
             Some e \<Rightarrow> (Inl e, st1)
           | None \<Rightarrow>
               (pipeline
                  (map (\<lambda>d. \<lparr>c_doc = d, c_vectorSearchScore = None\<rparr>)
                     (filter (\<lambda>d. kd_agentId d = Some (kp_agentId params)
                                  \<or> (kd_isShared d \<and> kd_agentId d = None))
                        (db_knowledge st1))),
                st1)))"

section \<open>The result cache\<close>

text \<open>
  \<^verbatim>\<open>getCache\<close> finds the first entry with the key and agent that expires after now;
  \<^verbatim>\<open>setCache\<close> updates the first entry with the key and agent, or inserts one, with an
  expiry 24 hours from now, and turns a failure into the result \<^verbatim>\<open>false\<close>.
\<close>

definition getCache ::
  "env \<Rightarrow> string \<Rightarrow> uuid \<Rightarrow> adapter \<Rightarrow> (error + string option) \<times> adapter" where
  "getCache env key agentId st =
     (case ensureConnection env st of
        (Some e, st1) \<Rightarrow> (Inl e, st1)
      | (None, st1) \<Rightarrow>
          let st2 = issue (FindOne ''cache'') st1 in
          (case store_fault env (FindOne ''cache'') of
             Some e \<Rightarrow> (Inl e, st2)
           | None \<Rightarrow>
               (Inr (map_option cd_value
                       (find (\<lambda>c. cd_key c = key \<and> cd_agentId c = agentId
                                   \<and> cd_expiresAt c > Date_now env)
                          (db_cache st2))),
                st2)))"

fun updateOne_upsert ::
  "('d \<Rightarrow> bool) \<Rightarrow> ('d \<Rightarrow> 'd) \<Rightarrow> 'd \<Rightarrow> 'd list \<Rightarrow> 'd list" where
  "updateOne_upsert P f new [] = [new]"
| "updateOne_upsert P f new (d # ds) =
     (if P d then f d # ds else d # updateOne_upsert P f new ds)"

definition setCache ::
  "env \<Rightarrow> string \<Rightarrow> uuid \<Rightarrow> string \<Rightarrow> adapter \<Rightarrow> (error + bool) \<times> adapter" where
  "setCache env key agentId val st =
     (case ensureConnection env st of
        (Some e, st1) \<Rightarrow> (Inl e, st1)
      | (None, st1) \<Rightarrow>
          let st2 = issue (UpdateOne ''cache'') st1 in
          (case store_fault env (UpdateOne ''cache'') of
             Some e \<Rightarrow> (Inr False, log_error e st2)
           | None \<Rightarrow>
               (Inr True,
                st2\<lparr>db_cache :=
                      updateOne_upsert
                        (\<lambda>c. cd_key c = key \<and> cd_agentId c = agentId)
                        (\<lambda>c. c\<lparr>cd_value := val, cd_createdAt := Date_now env,
                               cd_expiresAt := Date_now env + 24 * 60 * 60 * 1000\<rparr>)
                        \<lparr>cd_key = key, cd_agentId = agentId, cd_value = val,
                         cd_createdAt = Date_now env,
                         cd_expiresAt = Date_now env + 24 * 60 * 60 * 1000\<rparr>
                        (db_cache st2)\<rparr>)))"

section \<open>searchKnowledge\<close>

text \<open>\<^verbatim>\<open>JSON.stringify\<close> of an array: its elements between brackets.\<close>

definition JSON_stringify :: "env \<Rightarrow> rag_item list \<Rightarrow> string" where
  "JSON_stringify env items = ''['' @ JSON_stringify_elements env items @ '']''"

definition to_item :: "env \<Rightarrow> scored \<Rightarrow> error + rag_item" where
  "to_item env item =
     (case normalize_content env (kd_content (s_doc item)) of
        Inl e \<Rightarrow> Inl e
      | Inr c \<Rightarrow>
          Inr \<lparr>ri_id = kd_id (s_doc item), ri_agentId = kd_agentId (s_doc item),
               ri_content = c, ri_embedding = kd_embedding (s_doc item),
               ri_createdAt = normalize_created env (kd_createdAt (s_doc item)),
               ri_similarity = (case combinedScore item of None \<Rightarrow> 0 | Some x \<Rightarrow> x)\<rparr>)"

definition cacheKey :: "knowledge_params \<Rightarrow> string" where
  "cacheKey params =
     ''embedding_'' @ kp_agentId params @ ''_''
       @ (case kp_searchText params of None \<Rightarrow> ''undefined'' | Some s \<Rightarrow> s)"

text \<open>
  The \<^verbatim>\<open>try\<close> block of \<^verbatim>\<open>searchKnowledge\<close>, entered on a cache miss: native search
  with the fallback in its \<^verbatim>\<open>catch\<close>, or the fallback alone; the mapping of the results;
  the write to the cache. The outer \<^verbatim>\<open>catch\<close> logs and rethrows.
\<close>

definition search_uncached ::
  "env \<Rightarrow> knowledge_params \<Rightarrow> adapter \<Rightarrow> (error + knowledge_results) \<times> adapter" where
  "search_uncached env params st =
     (case (if hasVectorSearch st then
              (case vectorSearchKnowledge env params st of
                 (Inl e, st1) \<Rightarrow> fallbackSearchKnowledge env params (log_error e st1)
               | (Inr results, st1) \<Rightarrow> (Inr results, st1))
            else fallbackSearchKnowledge env params st) of
        (Inl e, st2) \<Rightarrow> (Inl e, log_error e st2)
      | (Inr results, st2) \<Rightarrow>
          (case mapE (to_item env) results of
             Inl e \<Rightarrow> (Inl e, log_error e st2)
           | Inr mappedResults \<Rightarrow>
               (case setCache env (cacheKey params) (kp_agentId params)
                       (JSON_stringify env mappedResults) st2 of
                  (Inl e, st3) \<Rightarrow> (Inl e, log_error e st3)
                | (Inr _, st3) \<Rightarrow> (Inr (Computed mappedResults), st3))))"

definition searchKnowledge ::
  "env \<Rightarrow> knowledge_params \<Rightarrow> adapter \<Rightarrow> (error + knowledge_results) \<times> adapter" where
  "searchKnowledge env params st =
     (case ensureConnection env st of
        (Some e, st1) \<Rightarrow> (Inl e, st1)
      | (None, st1) \<Rightarrow>
          (case getCache env (cacheKey params) (kp_agentId params) st1 of
             (Inl e, st2) \<Rightarrow> (Inl e, st2)
           | (Inr cachedResult, st2) \<Rightarrow>
               (case truthy cachedResult of
                  Some cached \<Rightarrow>
                    (case JSON_parse env cached of
                       Inl e \<Rightarrow> (Inl e, st2)
                     | Inr parsed \<Rightarrow> (Inr (FromCache parsed), st2))
                | None \<Rightarrow> search_uncached env params st2)))"

section \<open>createMemory\<close>

text \<open>
  The stored content is \<^verbatim>\<open>{content: memory.content, ...memory.content}\<close>; the spread
  copies the entries of an object.
\<close>

definition object_set :: "(string \<times> json) list \<Rightarrow> string \<Rightarrow> json \<Rightarrow> (string \<times> json) list" where
  "object_set kvs k v =
     (if k \<in> fst ` set kvs then map (\<lambda>(k', v'). if k' = k then (k', v) else (k', v')) kvs
      else kvs @ [(k, v)])"

definition stored_content :: "json \<Rightarrow> json" where
  "stored_content c =
     JObject (case c of
                JObject kvs \<Rightarrow> fold (\<lambda>(k, v) obj. object_set obj k v) kvs [(''content'', c)]
              | _ \<Rightarrow> [(''content'', c)])"

definition new_memory_doc :: "env \<Rightarrow> memory \<Rightarrow> string \<Rightarrow> bool \<Rightarrow> memory_doc" where
  "new_memory_doc env memory tableName isUnique =
     \<lparr>md_id = (case mem_id memory of Some i \<Rightarrow> i | None \<Rightarrow> uuid_v4 env),
      md_type = tableName,
      md_content = stored_content (mem_content memory),
      md_embedding = mem_embedding memory,
      md_userId = mem_userId memory,
      md_roomId = mem_roomId memory,
      md_agentId = mem_agentId memory,
      md_unique = isUnique,
      md_createdAt =
        CreatedDate (case mem_createdAt memory of Some t \<Rightarrow> t | None \<Rightarrow> Date_now env)\<rparr>"

definition insertOne_memories :: "env \<Rightarrow> memory_doc \<Rightarrow> adapter \<Rightarrow> error option \<times> adapter" where
  "insertOne_memories env doc st =
     (let st1 = issue (InsertOne ''memories'') st in
      case store_fault env (InsertOne ''memories'') of
        Some e \<Rightarrow> (Some e, st1)
      | None \<Rightarrow> (None, st1\<lparr>db_memories := db_memories st1 @ [doc]\<rparr>))"

text \<open>
  \<^verbatim>\<open>createMemory\<close>. \<^verbatim>\<open>ensureConnection\<close> runs before the \<^verbatim>\<open>try\<close> block; the
  \<^verbatim>\<open>catch\<close> logs whatever the similarity search or the insert throws.
\<close>

definition createMemory ::
  "env \<Rightarrow> memory \<Rightarrow> string \<Rightarrow> adapter \<Rightarrow> (error + unit) \<times> adapter" where
  "createMemory env memory tableName st =
     (case ensureConnection env st of
        (Some e, st1) \<Rightarrow> (Inl e, st1)
      | (None, st1) \<Rightarrow>
          (case (case mem_embedding memory of
                   Some embedding \<Rightarrow>
                     (case searchMemories env
                             \<lparr>sp_tableName = tableName, sp_roomId = mem_roomId memory,
                              sp_agentId = Some (mem_agentId memory), sp_embedding = embedding,
                              sp_match_threshold = 0.95, sp_match_count = 1,
                              sp_unique = True\<rparr> st1 of
                        (Inl e, st2) \<Rightarrow> (Inl e, st2)
                      | (Inr similarMemories, st2) \<Rightarrow> (Inr (length similarMemories = 0), st2))
                 | None \<Rightarrow> (Inr True, st1)) of
             (Inl e, st2) \<Rightarrow> (Inr (), log_error e st2)
           | (Inr isUnique, st2) \<Rightarrow>
               (case insertOne_memories env (new_memory_doc env memory tableName isUnique) st2 of
                  (Some e, st3) \<Rightarrow> (Inr (), log_error e st3)
                | (None, st3) \<Rightarrow> (Inr (), st3))))"

section \<open>getCachedEmbeddings\<close>

text \<open>
  A property read \<^verbatim>\<open>v[k]\<close> of the runtime, on a JSON value or on \<^verbatim>\<open>undefined\<close>
  (\<open>None\<close>): it throws a TypeError on \<^verbatim>\<open>undefined\<close> and \<^verbatim>\<open>null\<close>, reads the entry
  of an object, the length or an element of a string or an array, and is \<^verbatim>\<open>undefined\<close>
  otherwise. Only own properties are read. An index is a decimal numeral without a leading zero.
\<close>

definition array_index :: "string \<Rightarrow> nat option" where
  "array_index k =
     (if k \<noteq> [] \<and> list_all (\<lambda>c. 48 \<le> (of_char c :: nat) \<and> (of_char c :: nat) \<le> 57) k
         \<and> (length k = 1 \<or> hd k \<noteq> CHR ''0'')
      then Some (foldl (\<lambda>n c. 10 * n + ((of_char c :: nat) - 48)) 0 k)
      else None)"

definition js_property :: "json option \<Rightarrow> string \<Rightarrow> error + json option" where
  "js_property v k =
     (case v of
        None \<Rightarrow> Inl TypeError
      | Some JNull \<Rightarrow> Inl TypeError
      | Some (JBool b) \<Rightarrow> Inr None
      | Some (JNumber x) \<Rightarrow> Inr None
      | Some (JString s) \<Rightarrow>
          Inr (if k = ''length'' then Some (JNumber (real (length s)))
               else (case array_index k of
                       Some i \<Rightarrow> if i < length s then Some (JString [s ! i]) else None
                     | None \<Rightarrow> None))
      | Some (JArray xs) \<Rightarrow>
          Inr (if k = ''length'' then Some (JNumber (real (length xs)))
               else (case array_index k of
                       Some i \<Rightarrow> if i < length xs then Some (xs ! i) else None
                     | None \<Rightarrow> None))
      | Some (JObject kvs) \<Rightarrow> Inr (map_of kvs k))"

text \<open>
  \<^verbatim>\<open>calculateLevenshteinDistanceOptimized\<close> on a second argument that has no
  \<^verbatim>\<open>length\<close> (a number, a boolean, an object without that entry). The argument is not
  equal to the first; for an empty first argument the method returns the missing length;
  otherwise the column requirement is \<^verbatim>\<open>NaN\<close>, so that a matrix with too few rows makes
  \<^verbatim>\<open>Array(NaN)\<close> throw a RangeError, and a matrix with enough rows is reused, has the first
  column of its rows written, and no loop over the columns runs: the cell read at the end is
  \<^verbatim>\<open>undefined\<close>.
\<close>

definition levenshtein_without_length :: "string \<Rightarrow> matrix \<Rightarrow> (error + jsnumber) \<times> matrix" where
  "levenshtein_without_length str1 M =
     (if length str1 = 0 then (Inr None, M)
      else if length M < length str1 + 1 then (Inl RangeError, M)
      else (Inr None, fold (\<lambda>i M'. set_cell M' i 0 (Some i)) [0..<Suc (length str1)] M))"

text \<open>
  The method on whatever the record holds at the path: reading the length of
  \<^verbatim>\<open>undefined\<close> or \<^verbatim>\<open>null\<close> throws a TypeError before the matrix is touched.
\<close>

definition levenshtein_of_value ::
  "env \<Rightarrow> string \<Rightarrow> json option \<Rightarrow> matrix \<Rightarrow> (error + jsnumber) \<times> matrix" where
  "levenshtein_of_value env str1 v M =
     (case v of
        None \<Rightarrow> (Inl TypeError, M)
      | Some JNull \<Rightarrow> (Inl TypeError, M)
      | Some (JBool b) \<Rightarrow> levenshtein_without_length str1 M
      | Some (JNumber x) \<Rightarrow> levenshtein_without_length str1 M
      | Some (JString str2) \<Rightarrow> calculateLevenshteinDistanceOptimized str1 str2 M
      | Some (JArray xs) \<Rightarrow> levenshtein_array_like env str1 (JArray xs) M
      | Some (JObject kvs) \<Rightarrow>
          if map_of kvs ''length'' = None then levenshtein_without_length str1 M
          else levenshtein_array_like env str1 (JObject kvs) M)"

text \<open>
  The callback of \<^verbatim>\<open>map\<close>: the record with the distance to
  \<^verbatim>\<open>memory.content[field][sub]\<close>, or, from its \<^verbatim>\<open>catch\<close>, the empty array. The calls
  share the scratch matrix of the adapter.
\<close>

definition score_memory ::
  "env \<Rightarrow> cached_opts \<Rightarrow> memory_doc \<Rightarrow> adapter \<Rightarrow> cached_embedding \<times> adapter" where
  "score_memory env opts memory st =
     (case js_property (Some (md_content memory)) (query_field_name opts) of
        Inl e \<Rightarrow> (EmptyArray, log_error e st)
      | Inr inner \<Rightarrow>
          (case js_property inner (query_field_sub_name opts) of
             Inl e \<Rightarrow> (EmptyArray, log_error e st)
           | Inr v \<Rightarrow>
               (case levenshtein_of_value env (query_input opts) v (levenshteinMatrix st) of
                  (Inl e, M) \<Rightarrow> (EmptyArray, log_error e (st\<lparr>levenshteinMatrix := M\<rparr>))
                | (Inr levenshteinDistance, M) \<Rightarrow>
                    (Scored (md_embedding memory) levenshteinDistance,
                     st\<lparr>levenshteinMatrix := M\<rparr>))))"

fun score_memories ::
  "env \<Rightarrow> cached_opts \<Rightarrow> memory_doc list \<Rightarrow> adapter \<Rightarrow> cached_embedding list \<times> adapter" where
  "score_memories env opts [] st = ([], st)"
| "score_memories env opts (m # ms) st =
     (case score_memory env opts m st of
        (r, st1) \<Rightarrow> (case score_memories env opts ms st1 of (rs, st2) \<Rightarrow> (r # rs, st2)))"

text \<open>
  The comparator of the final sort reads \<^verbatim>\<open>levenshtein_score\<close>, which is
  \<^verbatim>\<open>undefined\<close> on an empty array; every comparison with it is false.
\<close>

definition levenshtein_score :: "cached_embedding \<Rightarrow> jsnumber" where
  "levenshtein_score r = (case r of Scored e d \<Rightarrow> d | EmptyArray \<Rightarrow> None)"

definition compare_levenshtein :: "cached_embedding \<Rightarrow> cached_embedding \<Rightarrow> real" where
  "compare_levenshtein a b =
     (case (levenshtein_score a, levenshtein_score b) of
        (Some x, Some y) \<Rightarrow> if x < y then - 1 else if x > y then 1 else 0
      | _ \<Rightarrow> 0)"

text \<open>
  \<^verbatim>\<open>getCachedEmbeddings\<close>: the relevance search sorted by score and limited to twice the
  count, the scoring of every candidate, the sort by distance and the cut to the count. When
  the aggregation fails the outer \<^verbatim>\<open>catch\<close> returns the empty list.
\<close>

definition getCachedEmbeddings ::
  "env \<Rightarrow> cached_opts \<Rightarrow> adapter \<Rightarrow> (error + cached_embedding list) \<times> adapter" where
  "getCachedEmbeddings env opts st =
     (case ensureConnection env st of
        (Some e, st1) \<Rightarrow> (Inl e, st1)
      | (None, st1) \<Rightarrow>
          let st2 = issue (TextSearch ''memories'') st1 in
          (case store_fault env (TextSearch ''memories'') of
             Some e \<Rightarrow> (Inr [], log_error e st2)
           | None \<Rightarrow>
               let dataRelevanceAndLevenshtein =
                     take (query_match_count opts * 2)
                       (map fst
                          (js_sort (\<lambda>a b. snd b - snd a)
                             (textSearch_memories env opts (db_memories st2))))
               in
               (case score_memories env opts dataRelevanceAndLevenshtein st2 of
                  (scoredl, st3) \<Rightarrow>
                    (Inr (take (query_match_count opts)
                            (Array_sort (sort_engine_embeddings env) compare_levenshtein scoredl)),
                     st3))))"

section \<open>An example store\<close>

text \<open>
  A store that rejects nothing, whose vector index returns every document with score one
  half, and a connected, fallback-only adapter over one memory and two knowledge records.
\<close>

definition example_env :: env where
  "example_env =
     \<lparr>Date_now = 1000, Date_parse = (\<lambda>s. None), uuid_v4 = ''generated-id'',
      JSON_parse = (\<lambda>s. Inl SyntaxError), JSON_stringify_elements = (\<lambda>items. []),
      regex_engine = (\<lambda>pattern. Inl SyntaxError), bootstrap_fault = None,
      serverStatus_vectorSearch = Inr False, createVectorIndexes_fault = None,
      sharded = Inr False, store_fault = (\<lambda>r. None),
      vectorSearch_memories = (\<lambda>q n l docs. docs),
      vectorSearch_knowledge = (\<lambda>q n l docs. map (\<lambda>d. (d, 1 / 2)) docs),
      textSearch_memories = (\<lambda>opts docs. map (\<lambda>d. (d, 1)) docs),
      toLowerCase_unicode = (\<lambda>s. s), sort_engine_memories = (\<lambda>xs. xs),
      sort_engine_embeddings = (\<lambda>xs. xs),
      levenshtein_array_like = (\<lambda>str1 v M. (Inl TypeError, M))\<rparr>"

definition example_memory_doc :: "uuid \<Rightarrow> real list option \<Rightarrow> json \<Rightarrow> memory_doc" where
  "example_memory_doc i e c =
     \<lparr>md_id = i, md_type = ''messages'', md_content = c, md_embedding = e,
      md_userId = ''user'', md_roomId = ''room'', md_agentId = ''agent'',
      md_unique = True, md_createdAt = CreatedDate 0\<rparr>"

definition example_knowledge_doc :: "uuid \<Rightarrow> real list \<Rightarrow> string \<Rightarrow> knowledge_doc" where
  "example_knowledge_doc i e t =
     \<lparr>kd_id = i, kd_agentId = Some ''agent'', kd_content = JObject [(''text'', JString t)],
      kd_embedding = Some e, kd_createdAt = CreatedNumber (Some 0), kd_isMain = False,
      kd_originalId = None, kd_chunkIndex = None, kd_isShared = False\<rparr>"

definition example_adapter :: adapter where
  "example_adapter =
     \<lparr>hasVectorSearch = False, isConnected = True, isVectorSearchIndexComputable = False,
      levenshteinMatrix = [],
      db_memories =
        [example_memory_doc ''m1'' (Some [0, 1])
           (JObject [(''content'', JObject [(''text'', JString ''hello'')]),
                     (''text'', JString ''hello'')])],
      db_knowledge =
        [example_knowledge_doc ''k1'' [1, 0] ''Alpha'',
         example_knowledge_doc ''k2'' [0, 1] ''beta''],
      db_cache = [], requests = [], console = []\<rparr>"

definition example_search_params :: search_params where
  "example_search_params =
     \<lparr>sp_tableName = ''messages'', sp_roomId = ''room'', sp_agentId = Some ''agent'',
      sp_embedding = [1, 0], sp_match_threshold = 0.95, sp_match_count = 1, sp_unique = True\<rparr>"

definition example_knowledge_params :: knowledge_params where
  "example_knowledge_params =
     \<lparr>kp_agentId = ''agent'', kp_embedding = [1, 0], kp_match_threshold = 0.95,
      kp_match_count = 5, kp_searchText = Some ''alpha''\<rparr>"

definition example_memory :: "real list option \<Rightarrow> memory" where
  "example_memory e =
     \<lparr>mem_id = Some ''new'', mem_userId = ''user'', mem_agentId = ''agent'',
      mem_roomId = ''room'', mem_content = JObject [(''text'', JString ''hello'')],
      mem_embedding = e, mem_createdAt = Some 5\<rparr>"


text \<open>
  A regular-expression engine given on two patterns: \<^verbatim>\<open>a.c\<close> matches an input that has
  an \<^verbatim>\<open>a\<close> two places before a \<^verbatim>\<open>c\<close>, and \<^verbatim>\<open>c++\<close> is rejected, its second
  quantifier having nothing to repeat. No other pattern is given to it.
\<close>

definition example_regex_engine :: "string \<Rightarrow> error + (string \<Rightarrow> bool)" where
  "example_regex_engine pattern =
     (if pattern = ''a.c''
      then Inr (\<lambda>input. list_ex (\<lambda>i. take 1 (drop i input) = ''a''
                                    \<and> take 1 (drop (i + 2) input) = ''c'') [0..<length input])
      else Inl SyntaxError)"

section \<open>The Levenshtein engine computes the textbook distance\<close>

subsection \<open>Properties of the textbook table\<close>

lemma textbook_table_sym: "textbook_table a b i j = textbook_table b a j i"
proof (induction a b i j rule: textbook_table.induct)
  case (1 a b j)
  then show ?case by (cases j) simp_all
next
  case (2 a b i)
  then show ?case by simp
next
  case (3 a b i j)
  then show ?case by (simp add: min.commute min.left_commute eq_commute)
qed

lemma textbook_table_diag: "textbook_table a a i i = 0"
  by (induction i) simp_all

lemma textbook_table_col0: "textbook_table a b i 0 = i"
  by (cases i) simp_all

lemma textbook_table_down: "textbook_table a b (Suc i) j \<le> textbook_table a b i j + 1"
  by (cases j) (simp_all add: textbook_table_col0 min.coboundedI1 min.coboundedI2)

lemma textbook_table_right: "textbook_table a b i (Suc j) \<le> textbook_table a b i j + 1"
  by (cases i) (simp_all add: min.coboundedI1 min.coboundedI2)

lemma textbook_table_left: "textbook_table a b i j \<le> textbook_table a b i (Suc j) + 1"
proof (induction i arbitrary: j)
  case 0
  then show ?case by simp
next
  case (Suc i)
  have d: "textbook_table a b (Suc i) j \<le> textbook_table a b i j + 1"
    by (rule textbook_table_down)
  have "textbook_table a b i j \<le> textbook_table a b i (Suc j) + 1"
    by (rule Suc.IH)
  with d show ?case by (simp add: min_def)
qed

lemma textbook_table_up: "textbook_table a b i j \<le> textbook_table a b (Suc i) j + 1"
  using textbook_table_left [of b a j i] by (simp add: textbook_table_sym [of a b])

lemma textbook_table_step:
  "textbook_table a b (Suc i) (Suc j) =
     (if a ! i = b ! j then textbook_table a b i j
      else min (textbook_table a b i j + 1)
             (min (textbook_table a b (Suc i) j + 1) (textbook_table a b i (Suc j) + 1)))"
  using textbook_table_left [of a b i j] textbook_table_up [of a b i j]
    textbook_table_down [of a b i j] textbook_table_right [of a b i j]
    textbook_table_left [of a b "Suc i" j] textbook_table_up [of a b i "Suc j"]
  by (simp add: min_def)


subsection \<open>Reading and writing the scratch matrix\<close>

lemma length_set_cell: "length (set_cell M i j v) = length M"
  by (simp add: set_cell_def)

lemma shape_set_cell:
  "i < length M \<Longrightarrow> j < length (M ! i) \<Longrightarrow> map length (set_cell M i j v) = map length M"
  by (rule nth_equalityI) (simp_all add: set_cell_def js_set_def nth_list_update)

lemma cell_set_cell:
  "i < length M \<Longrightarrow> j < length (M ! i) \<Longrightarrow>
   cell (set_cell M i j v) r c = (if r = i \<and> c = j then v else cell M r c)"
  by (auto simp: cell_def set_cell_def js_set_def nth_list_update)

lemma length_nth_set_cell:
  "i < length M \<Longrightarrow> j < length (M ! i) \<Longrightarrow> length (set_cell M i j v ! r) = length (M ! r)"
  by (simp add: set_cell_def js_set_def nth_list_update)

lemma shape_nth: "map length M = S \<Longrightarrow> i < length S \<Longrightarrow> length (M ! i) = S ! i"
  by (metis length_map nth_map)

lemma fold_range_invariant:
  assumes "P lo s" and "lo \<le> hi"
    and "\<And>k t. lo \<le> k \<Longrightarrow> k < hi \<Longrightarrow> P k t \<Longrightarrow> P (Suc k) (f k t)"
  shows "P hi (fold f [lo..<hi] s)"
  using assms(2,3)
proof (induction hi)
  case 0
  with assms(1) show ?case by simp
next
  case (Suc hi)
  show ?case
  proof (cases "lo \<le> hi")
    case True
    have "P hi (fold f [lo..<hi] s)"
      using True Suc.prems(2) by (intro Suc.IH) simp_all
    then have "P (Suc hi) (f hi (fold f [lo..<hi] s))"
      using True Suc.prems(2) by simp
    with True show ?thesis by simp
  next
    case False
    with Suc.prems(1) have "lo = Suc hi" by simp
    with assms(1) show ?thesis by simp
  qed
qed

lemma init_first_column_ok:
  "len1 < length M \<Longrightarrow> \<forall>r \<le> len1. 0 < length (M ! r) \<Longrightarrow>
   \<exists>M'. init_first_column i len1 ec M = (None, M')
        \<and> map length M' = map length M
        \<and> (\<forall>r c. cell M' r c = (if i \<le> r \<and> r \<le> len1 \<and> c = 0 then Some r else cell M r c))"
proof (induction i len1 ec M rule: init_first_column.induct)
  case (1 i len1 ec M)
  show ?case
  proof (cases "i \<le> len1")
    case False
    then show ?thesis by (auto simp: init_first_column.simps [of i])
  next
    case True
    let ?N = "set_cell M i 0 (Some i)"
    have ilt: "i < length M" and pos: "0 < length (M ! i)"
      using True "1.prems" by auto
    have shape: "map length ?N = map length M"
      using ilt pos by (rule shape_set_cell)
    have len: "length ?N = length M" by (rule length_set_cell)
    have rows: "\<forall>r \<le> len1. 0 < length (?N ! r)"
    proof (intro allI impI)
      fix r assume "r \<le> len1"
      with "1.prems" have "r < length M" "0 < length (M ! r)" by auto
      moreover have "length (?N ! r) = length (M ! r)"
        using ilt pos by (rule length_nth_set_cell)
      ultimately show "0 < length (?N ! r)" by simp
    qed
    have "\<exists>M'. init_first_column (Suc i) len1 ec ?N = (None, M')
        \<and> map length M' = map length ?N
        \<and> (\<forall>r c. cell M' r c = (if Suc i \<le> r \<and> r \<le> len1 \<and> c = 0 then Some r else cell ?N r c))"
      by (rule "1.IH") (use True ilt pos len "1.prems"(1) rows in simp_all)
    then obtain M' where M': "init_first_column (Suc i) len1 ec ?N = (None, M')"
      "map length M' = map length ?N"
      "\<forall>r c. cell M' r c = (if Suc i \<le> r \<and> r \<le> len1 \<and> c = 0 then Some r else cell ?N r c)"
      by blast
    have "init_first_column i len1 ec M = (None, M')"
      using True ilt pos M'(1) by (simp add: init_first_column.simps [of i])
    moreover have "map length M' = map length M" using M'(2) shape by simp
    moreover have "\<forall>r c. cell M' r c = (if i \<le> r \<and> r \<le> len1 \<and> c = 0 then Some r else cell M r c)"
    proof (intro allI)
      fix r c
      show "cell M' r c = (if i \<le> r \<and> r \<le> len1 \<and> c = 0 then Some r else cell M r c)"
        using M'(3) [rule_format, of r c] True
        by (cases "r = i") (simp_all add: cell_set_cell [OF ilt pos])
    qed
    ultimately show ?thesis by blast
  qed
qed

lemma init_first_row_ok:
  assumes "0 < length M" and "len2 < length (M ! 0)"
  shows "map length (init_first_row len2 M) = map length M
       \<and> (\<forall>r c. cell (init_first_row len2 M) r c =
                   (if r = 0 \<and> c \<le> len2 then Some c else cell M r c))"
proof -
  let ?P = "\<lambda>k N. map length N = map length M
              \<and> (\<forall>r c. cell N r c = (if r = 0 \<and> c < k then Some c else cell M r c))"
  have "?P (Suc len2) (fold (\<lambda>j M'. set_cell M' 0 j (Some j)) [0..<Suc len2] M)"
  proof (rule fold_range_invariant [where P = ?P])
    show "?P 0 M" by simp
    show "0 \<le> Suc len2" by simp
  next
    fix k N assume k: "0 \<le> k" "k < Suc len2" and inv: "?P k N"
    have l0: "0 < length N" using inv assms(1) by (metis length_map)
    have "length (N ! 0) = length (M ! 0)"
      using inv assms(1) by (metis length_map nth_map)
    then have lk: "k < length (N ! 0)" using k assms(2) by simp
    show "?P (Suc k) (set_cell N 0 k (Some k))"
      using inv by (auto simp: shape_set_cell [OF l0 lk] cell_set_cell [OF l0 lk] less_Suc_eq)
  qed
  then show ?thesis by (simp add: init_first_row_def less_Suc_eq_le)
qed


subsection \<open>The loops establish the textbook entries\<close>

lemma dp_cell_step:
  assumes inv: "dp_invariant a b S i k M"
    and i: "1 \<le> i" "i \<le> length a" and k: "1 \<le> k" "k \<le> length b"
    and shape: "length a < length S" "\<forall>r \<le> length a. length b < S ! r"
  shows "dp_invariant a b S (i::nat) (Suc k) (dp_cell a b i k M)"
proof -
  obtain i' k' where ik: "i = Suc i'" "k = Suc k'"
    using i(1) k(1) by (metis One_nat_def Suc_le_D)
  have S: "map length M = S" using inv by (simp add: dp_invariant_def)
  have ilt: "i < length M" using S shape(1) i(2) by (metis length_map le_less_trans)
  have "length (M ! i) = S ! i" using S ilt by (metis length_map nth_map)
  then have klt: "k < length (M ! i)" using shape(2) i(2) k(2) by auto
  have c1: "cell M i' k' = Some (textbook_table a b i' k')"
    and c2: "cell M i' k = Some (textbook_table a b i' k)"
    and c3: "cell M i k' = Some (textbook_table a b i k')"
    using inv ik k(2) by (simp_all add: dp_invariant_def)
  let ?v = "Some (textbook_table a b i k)"
  have upd: "dp_cell a b i k M = set_cell M i k ?v"
    unfolding dp_cell_def ik
    using c1 c2 c3 textbook_table_step [of a b i' k']
    by (simp add: ik plus1_def Math_min_def)
  have cells: "\<And>r c. cell (set_cell M i k ?v) r c = (if r = i \<and> c = k then ?v else cell M r c)"
    by (rule cell_set_cell [OF ilt klt])
  have "map length (set_cell M i k ?v) = S"
    using shape_set_cell [OF ilt klt] S by simp
  moreover have "\<forall>r \<le> length a. cell (set_cell M i k ?v) r 0 = Some r"
    using inv k(1) by (simp add: cells dp_invariant_def)
  moreover have "\<forall>r < i. \<forall>c \<le> length b. cell (set_cell M i k ?v) r c = Some (textbook_table a b r c)"
    using inv by (simp add: cells dp_invariant_def)
  moreover have "\<forall>c < Suc k. cell (set_cell M i k ?v) i c = Some (textbook_table a b i c)"
    using inv by (simp add: cells dp_invariant_def less_Suc_eq)
  ultimately show ?thesis
    unfolding upd dp_invariant_def by blast
qed

lemma dp_row_step:
  assumes inv: "dp_invariant a b S i 0 M"
    and i: "1 \<le> i" "i \<le> length a"
    and shape: "length a < length S" "\<forall>r \<le> length a. length b < S ! r"
  shows "dp_invariant a b S (Suc i) 0 (dp_row a b i M)"
proof -
  have start: "dp_invariant a b S i 1 M"
    using inv i(2) by (simp add: dp_invariant_def textbook_table_col0)
  have "dp_invariant a b S i (Suc (length b)) (fold (dp_cell a b i) [1..<Suc (length b)] M)"
  proof (rule fold_range_invariant [where P = "dp_invariant a b S i"])
    show "dp_invariant a b S i 1 M" by (rule start)
    show "1 \<le> Suc (length b)" by simp
  next
    fix k t assume "1 \<le> k" "k < Suc (length b)" "dp_invariant a b S i k t"
    then show "dp_invariant a b S i (Suc k) (dp_cell a b i k t)"
      using i shape by (intro dp_cell_step) simp_all
  qed
  then have "dp_invariant a b S i (Suc (length b)) (dp_row a b i M)"
    by (simp only: dp_row_def)
  then show ?thesis
    unfolding dp_invariant_def
    by (metis less_Suc_eq less_Suc_eq_le not_less_zero)
qed

lemma dp_rows_ok:
  assumes inv: "dp_invariant a b S 1 0 M"
    and shape: "length a < length S" "\<forall>r \<le> length a. length b < S ! r"
  shows "dp_invariant a b S (Suc (length a)) 0 (dp_rows a b M)"
  unfolding dp_rows_def
proof (rule fold_range_invariant [where P = "\<lambda>i. dp_invariant a b S i 0"])
  show "dp_invariant a b S 1 0 M" by (rule inv)
  show "1 \<le> Suc (length a)" by simp
next
  fix k t assume "1 \<le> k" "k < Suc (length a)" "dp_invariant a b S k 0 t"
  then show "dp_invariant a b S (Suc k) 0 (dp_row a b k t)"
    using shape by (intro dp_row_step) simp_all
qed


subsection \<open>Every call leaves a rectangular matrix\<close>

lemma rectangular_shape: "map length M = map length N \<Longrightarrow> rectangular M \<Longrightarrow> rectangular N"
proof -
  assume eq: "map length M = map length N" and r: "rectangular M"
  have len: "length M = length N" using eq by (metis length_map)
  show "rectangular N"
  proof (cases N)
    case Nil
    then show ?thesis by (simp add: rectangular_def)
  next
    case (Cons n0 ns)
    then obtain m0 ms where M: "M = m0 # ms" using len by (cases M) auto
    have h: "length n0 = length m0" using eq Cons M by simp
    have "\<forall>x \<in> set (map length M). x = length m0"
      using r M by (auto simp: rectangular_def)
    then have "\<forall>x \<in> set (map length N). x = length n0" using eq h by simp
    then show ?thesis using Cons by (auto simp: rectangular_def)
  qed
qed

lemma getLevenshteinMatrix_fits:
  assumes "rectangular M" and "0 < rows"
  shows "rectangular (getLevenshteinMatrix rows cols M)
       \<and> rows \<le> length (getLevenshteinMatrix rows cols M)
       \<and> (\<forall>row \<in> set (getLevenshteinMatrix rows cols M). cols \<le> length row)"
proof (cases "getLevenshteinMatrix rows cols M = M")
  case False
  then have new: "getLevenshteinMatrix rows cols M = replicate rows (replicate cols (Some 0))"
    by (simp add: getLevenshteinMatrix_def split: if_splits)
  obtain n where "rows = Suc n" using assms(2) by (cases rows) auto
  then show ?thesis unfolding new by (simp add: rectangular_def)
next
  case True
  have big: "rows \<le> length M \<and> cols \<le> (case M of [] \<Rightarrow> 0 | r # _ \<Rightarrow> length r)"
  proof (rule ccontr)
    assume neg: "\<not> ?thesis"
    then have "getLevenshteinMatrix rows cols M = replicate rows (replicate cols (Some 0))"
      using assms(2) by (auto simp: getLevenshteinMatrix_def)
    with True have M: "M = replicate rows (replicate cols (Some 0))" by simp
    obtain n where "rows = Suc n" using assms(2) by (cases rows) auto
    with M neg show False by simp
  qed
  have "\<forall>row \<in> set M. cols \<le> length row"
    using big assms(1) by (auto simp: rectangular_def)
  with big assms(1) True show ?thesis by simp
qed

lemma levenshtein_body_ok:
  assumes shape: "length s1 < length M1" "\<forall>r \<le> length s1. length s2 < length (M1 ! r)"
  shows "\<exists>M2. init_first_column 0 (length s1) ec M1 = (None, M2)
           \<and> map length M2 = map length M1
           \<and> map length (dp_rows s1 s2 (init_first_row (length s2) M2)) = map length M1
           \<and> cell (dp_rows s1 s2 (init_first_row (length s2) M2)) (length s1) (length s2)
               = Some (textbook_distance s1 s2)"
proof -
  have pos: "\<forall>r \<le> length s1. 0 < length (M1 ! r)" using shape(2) by auto
  from init_first_column_ok [OF shape(1) pos, of 0 ec]
  obtain M2 where M2: "init_first_column 0 (length s1) ec M1 = (None, M2)"
    "map length M2 = map length M1"
    "\<forall>r c. cell M2 r c = (if 0 \<le> r \<and> r \<le> length s1 \<and> c = 0 then Some r else cell M1 r c)"
    by blast
  have len2: "length M2 = length M1" using M2(2) by (metis length_map)
  have row0: "length (M2 ! 0) = length (M1 ! 0)"
    using shape_nth [OF M2(2), of 0] shape(1) by (cases M1) auto
  have a0: "0 < length M2" using len2 shape(1) by linarith
  have a1: "length s2 < length (M2 ! 0)" using row0 shape(2) by simp
  let ?M3 = "init_first_row (length s2) M2"
  from init_first_row_ok [OF a0 a1]
  have M3: "map length ?M3 = map length M2"
    "\<forall>r c. cell ?M3 r c = (if r = 0 \<and> c \<le> length s2 then Some c else cell M2 r c)"
    by blast+
  let ?S = "map length M1"
  have S1: "length s1 < length ?S" using shape(1) by simp
  have S2: "\<forall>r \<le> length s1. length s2 < ?S ! r" using shape by simp
  have inv: "dp_invariant s1 s2 ?S 1 0 ?M3"
    unfolding dp_invariant_def using M3 M2(2,3) by simp
  have fin: "dp_invariant s1 s2 ?S (Suc (length s1)) 0 (dp_rows s1 s2 ?M3)"
    by (rule dp_rows_ok [OF inv S1 S2])
  then have "map length (dp_rows s1 s2 ?M3) = ?S"
    and "cell (dp_rows s1 s2 ?M3) (length s1) (length s2) = Some (textbook_distance s1 s2)"
    by (simp_all add: dp_invariant_def textbook_distance_def)
  with M2 show ?thesis by blast
qed


lemma levenshtein_core:
  assumes rect: "rectangular M"
  shows "\<exists>M2. init_first_column 0 (length s1) (length s2 + 1)
                 (getLevenshteinMatrix (length s1 + 1) (length s2 + 1) M) = (None, M2)
           \<and> \<not> length (getLevenshteinMatrix (length s1 + 1) (length s2 + 1) M) < length s1 + 1
           \<and> length M2 \<noteq> 0
           \<and> \<not> length (M2 ! 0) < length s2 + 1
           \<and> map length (dp_rows s1 s2 (init_first_row (length s2) M2))
               = map length (getLevenshteinMatrix (length s1 + 1) (length s2 + 1) M)
           \<and> cell (dp_rows s1 s2 (init_first_row (length s2) M2)) (length s1) (length s2)
               = Some (textbook_distance s1 s2)"
proof -
  let ?M1 = "getLevenshteinMatrix (length s1 + 1) (length s2 + 1) M"
  from getLevenshteinMatrix_fits [OF rect, of "length s1 + 1" "length s2 + 1"]
  have fits: "length s1 + 1 \<le> length ?M1" "\<forall>row \<in> set ?M1. length s2 + 1 \<le> length row"
    by simp_all
  have sh1: "length s1 < length ?M1" using fits(1) by simp
  have sh2: "\<forall>r \<le> length s1. length s2 < length (?M1 ! r)"
  proof (intro allI impI)
    fix r assume "r \<le> length s1"
    then have "?M1 ! r \<in> set ?M1" using sh1 by (intro nth_mem) simp
    with fits(2) show "length s2 < length (?M1 ! r)" by fastforce
  qed
  from levenshtein_body_ok [OF sh1 sh2, of "length s2 + 1"]
  obtain M2 where M2: "init_first_column 0 (length s1) (length s2 + 1) ?M1 = (None, M2)"
    "map length M2 = map length ?M1"
    "map length (dp_rows s1 s2 (init_first_row (length s2) M2)) = map length ?M1"
    "cell (dp_rows s1 s2 (init_first_row (length s2) M2)) (length s1) (length s2)
       = Some (textbook_distance s1 s2)"
    by blast
  have len2: "length M2 = length ?M1" using M2(2) by (metis length_map)
  have "length (M2 ! 0) = length (?M1 ! 0)"
    using shape_nth [OF M2(2), of 0] sh1 by (cases ?M1) auto
  then have "\<not> length (M2 ! 0) < length s2 + 1" using sh2 by fastforce
  moreover have "length M2 \<noteq> 0" using len2 sh1 by linarith
  moreover have "\<not> length ?M1 < length s1 + 1" using fits(1) by simp
  ultimately show ?thesis using M2 by blast
qed

lemma calculate_nontrivial:
  assumes rect: "rectangular M" and ne: "a \<noteq> b" "a \<noteq> []" "b \<noteq> []"
  shows "\<exists>M'. calculateLevenshteinDistanceOptimized a b M = (Inr (Some (textbook_distance a b)), M')
           \<and> map length M' =
               map length (getLevenshteinMatrix (required_rows a b) (required_cols a b) M)"
proof (cases "length a > length b")
  case True
  from levenshtein_core [OF rect, of b a] obtain M2 where
    "init_first_column 0 (length b) (length a + 1)
       (getLevenshteinMatrix (length b + 1) (length a + 1) M) = (None, M2)"
    "\<not> length (getLevenshteinMatrix (length b + 1) (length a + 1) M) < length b + 1"
    "length M2 \<noteq> 0" "\<not> length (M2 ! 0) < length a + 1"
    "map length (dp_rows b a (init_first_row (length a) M2))
       = map length (getLevenshteinMatrix (length b + 1) (length a + 1) M)"
    "cell (dp_rows b a (init_first_row (length a) M2)) (length b) (length a)
       = Some (textbook_distance b a)"
    by blast
  moreover have "textbook_distance b a = textbook_distance a b"
    by (simp add: textbook_distance_def textbook_table_sym [of a b])
  moreover have "required_rows a b = length b + 1" "required_cols a b = length a + 1"
    using True by (simp_all add: required_rows_def required_cols_def)
  ultimately show ?thesis
    using True ne by (simp add: calculateLevenshteinDistanceOptimized_def Let_def)
next
  case False
  from levenshtein_core [OF rect, of a b] obtain M2 where
    "init_first_column 0 (length a) (length b + 1)
       (getLevenshteinMatrix (length a + 1) (length b + 1) M) = (None, M2)"
    "\<not> length (getLevenshteinMatrix (length a + 1) (length b + 1) M) < length a + 1"
    "length M2 \<noteq> 0" "\<not> length (M2 ! 0) < length b + 1"
    "map length (dp_rows a b (init_first_row (length b) M2))
       = map length (getLevenshteinMatrix (length a + 1) (length b + 1) M)"
    "cell (dp_rows a b (init_first_row (length b) M2)) (length a) (length b)
       = Some (textbook_distance a b)"
    by blast
  moreover have "required_rows a b = length a + 1" "required_cols a b = length b + 1"
    using False by (simp_all add: required_rows_def required_cols_def)
  ultimately show ?thesis
    using False ne by (simp add: calculateLevenshteinDistanceOptimized_def Let_def)
qed

lemma calculate_result:
  assumes rect: "rectangular M"
  shows "fst (calculateLevenshteinDistanceOptimized a b M) = Inr (Some (textbook_distance a b))"
proof (cases "a = b \<or> a = [] \<or> b = []")
  case True
  then show ?thesis
    by (auto simp: calculateLevenshteinDistanceOptimized_def textbook_distance_def
        textbook_table_diag textbook_table_col0)
next
  case False
  with calculate_nontrivial [OF rect, of a b] show ?thesis by auto
qed

lemma calculate_rectangular:
  assumes rect: "rectangular M"
  shows "rectangular (snd (calculateLevenshteinDistanceOptimized a b M))"
proof (cases "a = b \<or> a = [] \<or> b = []")
  case True
  then show ?thesis using rect
    by (auto simp: calculateLevenshteinDistanceOptimized_def)
next
  case False
  then obtain M' where M': "calculateLevenshteinDistanceOptimized a b M = (Inr (Some (textbook_distance a b)), M')"
    "map length M' = map length (getLevenshteinMatrix (required_rows a b) (required_cols a b) M)"
    using calculate_nontrivial [OF rect, of a b] by auto
  have "rectangular (getLevenshteinMatrix (required_rows a b) (required_cols a b) M)"
    using getLevenshteinMatrix_fits [OF rect, of "required_rows a b"]
    by (simp add: required_rows_def)
  then have "rectangular M'" using M'(2) by (metis rectangular_shape)
  with M'(1) show ?thesis by simp
qed

lemma levenshtein_calls_rectangular:
  "rectangular M \<Longrightarrow> rectangular (levenshtein_calls calls M)"
proof (induction calls arbitrary: M)
  case Nil
  then show ?case by (simp add: levenshtein_calls_def)
next
  case (Cons c cs)
  obtain a b where c: "c = (a, b)" by (cases c)
  have "rectangular (snd (calculateLevenshteinDistanceOptimized a b M))"
    using Cons.prems by (rule calculate_rectangular)
  then have "rectangular (levenshtein_calls cs (snd (calculateLevenshteinDistanceOptimized a b M)))"
    by (rule Cons.IH)
  then show ?case by (simp add: levenshtein_calls_def c)
qed

lemma rectangular_Nil: "rectangular []"
  by (simp add: rectangular_def)

text \<open>
  Claim C4. Whatever calls were made before on the same adapter instance,
  \<^verbatim>\<open>calculateLevenshteinDistanceOptimized(a, b)\<close> returns the textbook edit distance of
  \<open>a\<close> and \<open>b\<close>; the result is the same for \<open>(b, a)\<close>, it is 0 for equal strings and the
  length of \<open>a\<close> when \<open>b\<close> is empty. No call throws.
\<close>

theorem levenshtein_refines_textbook:
  "fst (calculateLevenshteinDistanceOptimized a b (levenshtein_calls calls []))
     = Inr (Some (textbook_distance a b))
   \<and> fst (calculateLevenshteinDistanceOptimized a b (levenshtein_calls calls []))
     = fst (calculateLevenshteinDistanceOptimized b a (levenshtein_calls calls []))
   \<and> fst (calculateLevenshteinDistanceOptimized a a (levenshtein_calls calls [])) = Inr (Some 0)
   \<and> fst (calculateLevenshteinDistanceOptimized a [] (levenshtein_calls calls []))
     = Inr (Some (length a))"
proof -
  have rect: "rectangular (levenshtein_calls calls [])"
    by (rule levenshtein_calls_rectangular [OF rectangular_Nil])
  have sym: "textbook_distance b a = textbook_distance a b"
    by (simp add: textbook_distance_def textbook_table_sym [of a b])
  have "textbook_distance a a = 0" "textbook_distance a [] = length a"
    by (simp_all add: textbook_distance_def textbook_table_diag textbook_table_col0)
  then show ?thesis
    by (simp add: calculate_result [OF rect] sym)
qed

section \<open>Size of the scratch matrix across calls\<close>

lemma getLevenshteinMatrix_shape:
  assumes "0 < rows" and "0 < cols"
  shows "map length (getLevenshteinMatrix rows cols M) =
           (if rows \<le> length M \<and> cols \<le> row0_length M then map length M
            else replicate rows cols)"
  using assms by (cases M) (auto simp: getLevenshteinMatrix_def row0_length_def)

lemma row0_length_shape: "map length M = map length N \<Longrightarrow> row0_length M = row0_length N"
  by (cases M; cases N) (simp_all add: row0_length_def)

text \<open>
  Claim C7, as amended. After a call that gets past the early returns, the matrix has at
  least the rows and its first row at least the columns that this call requires. A matrix
  that already met the requirement keeps the length of every row; otherwise it is replaced by
  one of exactly the required size, whatever its size was before.
\<close>

theorem scratch_matrix_meets_current_request:
  assumes "a \<noteq> b" and "a \<noteq> []" and "b \<noteq> []"
  shows "required_rows a b
           \<le> length (snd (calculateLevenshteinDistanceOptimized a b (levenshtein_calls calls [])))
       \<and> required_cols a b
           \<le> row0_length (snd (calculateLevenshteinDistanceOptimized a b (levenshtein_calls calls [])))
       \<and> map length (snd (calculateLevenshteinDistanceOptimized a b (levenshtein_calls calls [])))
           = (if required_rows a b \<le> length (levenshtein_calls calls [])
                 \<and> required_cols a b \<le> row0_length (levenshtein_calls calls [])
              then map length (levenshtein_calls calls [])
              else replicate (required_rows a b) (required_cols a b))"
proof -
  let ?M = "levenshtein_calls calls []"
  let ?G = "getLevenshteinMatrix (required_rows a b) (required_cols a b) ?M"
  have rect: "rectangular ?M"
    by (rule levenshtein_calls_rectangular [OF rectangular_Nil])
  obtain M' where M': "calculateLevenshteinDistanceOptimized a b ?M
                         = (Inr (Some (textbook_distance a b)), M')"
    "map length M' = map length ?G"
    using calculate_nontrivial [OF rect assms] by blast
  have pos: "0 < required_rows a b" "0 < required_cols a b"
    by (simp_all add: required_rows_def required_cols_def)
  have fits: "required_rows a b \<le> length ?G" "\<forall>row \<in> set ?G. required_cols a b \<le> length row"
    using getLevenshteinMatrix_fits [OF rect pos(1), of "required_cols a b"] by simp_all
  have "?G \<noteq> []" using fits(1) pos(1) by auto
  then have "required_cols a b \<le> row0_length ?G"
    using fits(2) by (cases ?G) (simp_all add: row0_length_def)
  then have c: "required_cols a b \<le> row0_length M'"
    using row0_length_shape [OF M'(2)] by simp
  have r: "required_rows a b \<le> length M'"
    using fits(1) M'(2) by (metis length_map)
  show ?thesis
    using r c M'(2) getLevenshteinMatrix_shape [OF pos, of ?M] by (simp add: M'(1))
qed

theorem scratch_matrix_meets_current_request_witness:
  "required_rows ''a'' ''bcde'' = 2 \<and> required_cols ''a'' ''bcde'' = 5
   \<and> map length (levenshtein_calls [(''ab'', ''cd'')] []) = [3, 3, 3]
   \<and> map length (snd (calculateLevenshteinDistanceOptimized ''a'' ''bcde''
                         (levenshtein_calls [(''ab'', ''cd'')] []))) = [5, 5]"
proof -
  have s: "map length (levenshtein_calls [(''ab'', ''cd'')] []) = [3, 3, 3]"
    by code_simp
  have r0: "row0_length (levenshtein_calls [(''ab'', ''cd'')] []) = 3"
    by code_simp
  have rep: "replicate 2 5 = [5, 5 :: nat]"
    by code_simp
  have "required_rows ''a'' ''bcde'' = 2" "required_cols ''a'' ''bcde'' = 5"
    by (simp_all add: required_rows_def required_cols_def)
  then show ?thesis
    using scratch_matrix_meets_current_request [of "''a''" "''bcde''" "[(''ab'', ''cd'')]"] s r0 rep
    by simp
qed

text \<open>
  Claim C7 as stated fails: a call on \<^verbatim>\<open>"ab"\<close> and \<^verbatim>\<open>"cd"\<close> requires and leaves
  three rows; a following call on \<^verbatim>\<open>"a"\<close> and \<^verbatim>\<open>"bcde"\<close> needs five columns, and the
  replacement has two rows only, fewer than the first call required.
\<close>

theorem scratch_matrix_shrinks_counterexample:
  "required_rows ''ab'' ''cd'' = 3
   \<and> length (levenshtein_calls [(''ab'', ''cd'')] []) = 3
   \<and> length (levenshtein_calls [(''ab'', ''cd''), (''a'', ''bcde'')] []) = 2
   \<and> \<not> required_rows ''ab'' ''cd''
         \<le> length (levenshtein_calls [(''ab'', ''cd''), (''a'', ''bcde'')] [])"
  by code_simp

text \<open>Claim C4 at a concrete history of two calls that re-allocate the matrix.\<close>

theorem levenshtein_refines_textbook_witness:
  "fst (calculateLevenshteinDistanceOptimized ''kitten'' ''sitting''
          (levenshtein_calls [(''ab'', ''cd''), (''a'', ''bcde'')] [])) = Inr (Some 3)
   \<and> fst (calculateLevenshteinDistanceOptimized ''sitting'' ''kitten''
          (levenshtein_calls [(''ab'', ''cd''), (''a'', ''bcde'')] [])) = Inr (Some 3)"
proof -
  have "textbook_distance ''kitten'' ''sitting'' = 3"
    by code_simp
  then show ?thesis
    using levenshtein_refines_textbook
      [of "''kitten''" "''sitting''" "[(''ab'', ''cd''), (''a'', ''bcde'')]"]
    by metis
qed

section \<open>Sorting, mapping and the scoring pipeline\<close>

lemma mset_js_insert: "mset (js_insert cmp x ys) = add_mset x (mset ys)"
  by (induction ys) simp_all

lemma mset_js_sort: "mset (js_sort cmp xs) = mset xs"
  by (induction xs) (simp_all add: js_sort_def mset_js_insert)

lemma set_js_insert: "set (js_insert cmp x ys) = insert x (set ys)"
  by (induction ys) auto

lemma sorted_js_insert:
  fixes key :: "'a \<Rightarrow> 'k::linorder"
  assumes cmp: "\<And>a b. cmp a b \<le> 0 \<longleftrightarrow> key b \<le> key a"
    and sorted: "sorted_wrt (\<lambda>a b. key b \<le> key a) ys"
  shows "sorted_wrt (\<lambda>a b. key b \<le> key a) (js_insert cmp x ys)"
  using sorted
proof (induction ys)
  case Nil
  then show ?case by simp
next
  case (Cons y ys)
  show ?case
  proof (cases "cmp x y \<le> 0")
    case True
    then have "key y \<le> key x" using cmp by simp
    moreover have "\<forall>z \<in> set ys. key z \<le> key y" using Cons.prems by simp
    ultimately have "\<forall>z \<in> set (y # ys). key z \<le> key x" by auto
    with True Cons.prems show ?thesis by simp
  next
    case False
    then have "key x \<le> key y" using cmp [of x y] by simp
    moreover have "sorted_wrt (\<lambda>a b. key b \<le> key a) (js_insert cmp x ys)"
      using Cons by simp
    ultimately show ?thesis using False Cons.prems by (auto simp: set_js_insert)
  qed
qed

lemma sorted_js_sort:
  fixes key :: "'a \<Rightarrow> 'k::linorder"
  assumes cmp: "\<And>a b. cmp a b \<le> 0 \<longleftrightarrow> key b \<le> key a"
  shows "sorted_wrt (\<lambda>a b. key b \<le> key a) (js_sort cmp xs)"
proof (induction xs)
  case Nil
  then show ?case by (simp add: js_sort_def)
next
  case (Cons x xs)
  have "js_sort cmp (x # xs) = js_insert cmp x (js_sort cmp xs)"
    by (simp add: js_sort_def)
  with sorted_js_insert [of cmp key, OF cmp Cons.IH] show ?case by simp
qed

lemma compare_combinedScore_le:
  "compare_combinedScore a b \<le> 0 \<longleftrightarrow> combinedScore b \<le> combinedScore a"
  by (cases "combinedScore a"; cases "combinedScore b") (simp_all add: compare_combinedScore_def)

lemma mapE_Inr_length: "mapE f xs = Inr ys \<Longrightarrow> length ys = length xs"
  by (induction xs arbitrary: ys) (auto split: sum.splits)

lemma mapE_Inr_nth:
  "mapE f xs = Inr ys \<Longrightarrow> i < length xs \<Longrightarrow> f (xs ! i) = Inr (ys ! i)"
proof (induction xs arbitrary: ys i)
  case Nil
  then show ?case by simp
next
  case (Cons x xs)
  then show ?case by (cases i) (auto split: sum.splits)
qed


lemma calculateKeywordScore_value:
  assumes "calculateKeywordScore env searchText = Inr keyword"
  shows "keyword d =
           (if (case truthy searchText of
                  None \<Rightarrow> False
                | Some q \<Rightarrow> \<exists>regex. RegExp env (toLowerCase env q) = Inr regex
                              \<and> regex (toLower (content_text (kd_content d))))
            then 3.0 else 1.0)
           * (if metadata_flag (kd_content d) ''isChunk'' then 1.5
              else if metadata_flag (kd_content d) ''isMain'' then 1.2 else 1.0)"
proof (cases "truthy searchText")
  case None
  with assms show ?thesis
    by (auto simp: calculateKeywordScore_def)
next
  case (Some q)
  with assms obtain regex where r: "RegExp env (toLowerCase env q) = Inr regex"
    by (auto simp: calculateKeywordScore_def split: sum.splits)
  with assms Some have
    "keyword = (\<lambda>d. (if regex (toLower (content_text (kd_content d))) then 3.0 else 1.0)
                   * (if metadata_flag (kd_content d) ''isChunk'' then 1.5
                      else if metadata_flag (kd_content d) ''isMain'' then 1.2 else 1.0))"
    by (auto simp: calculateKeywordScore_def)
  with Some r show ?thesis by simp
qed

lemma calculateKeywordScore_plain:
  assumes "calculateKeywordScore env searchText = Inr keyword"
    and "truthy searchText = Some q"
    and "\<not> list_ex regex_syntax_character (toLowerCase env q)"
  shows "keyword d =
           (if contains (toLower (content_text (kd_content d))) (toLowerCase env q)
            then 3.0 else 1.0)
           * (if metadata_flag (kd_content d) ''isChunk'' then 1.5
              else if metadata_flag (kd_content d) ''isMain'' then 1.2 else 1.0)"
proof -
  have "RegExp env (toLowerCase env q) = Inr (\<lambda>input. contains input (toLowerCase env q))"
    using assms(3) by (simp add: RegExp_def)
  with calculateKeywordScore_value [OF assms(1), of d] assms(2) show ?thesis by simp
qed

lemma accepted_rule:
  "accepted t s \<longleftrightarrow>
     (\<exists>v. vectorScore s = Some v \<and> (v \<ge> t \<or> (keywordScore s > 1.0 \<and> v \<ge> 0.3)))"
  by (cases "vectorScore s") (simp_all add: accepted_def)

lemma pipeline_result:
  assumes build: "getKnowledgeSearchPipeline env hasVS params = Inr pipeline"
    and run: "pipeline candidates = Inr returned"
  shows "\<exists>withScores keyword.
           calculateKeywordScore env (kp_searchText params) = Inr keyword
         \<and> length withScores = length candidates
         \<and> (\<forall>i < length candidates.
               s_doc (withScores ! i) = c_doc (candidates ! i)
             \<and> vectorScore_of hasVS (kp_embedding params) (candidates ! i)
                 = Inr (vectorScore (withScores ! i))
             \<and> keywordScore (withScores ! i) = keyword (c_doc (candidates ! i))
             \<and> combinedScore (withScores ! i)
                 = map_option (\<lambda>v. v * keywordScore (withScores ! i)) (vectorScore (withScores ! i)))
         \<and> returned = js_sort compare_combinedScore
                         (filter (accepted (kp_match_threshold params)) withScores)"
proof -
  obtain keyword where kw: "calculateKeywordScore env (kp_searchText params) = Inr keyword"
    using build by (auto simp: getKnowledgeSearchPipeline_def split: sum.splits)
  let ?f = "\<lambda>c. case vectorScore_of hasVS (kp_embedding params) c of
                   Inl e \<Rightarrow> Inl e
                 | Inr v \<Rightarrow>
                     Inr \<lparr>s_doc = c_doc c, vectorScore = v, keywordScore = keyword (c_doc c),
                          combinedScore = map_option (\<lambda>x. x * keyword (c_doc c)) v\<rparr>"
  have p: "pipeline = (\<lambda>candidates. case mapE ?f candidates of
                          Inl e \<Rightarrow> Inl e
                        | Inr withScores \<Rightarrow>
                            Inr (js_sort compare_combinedScore
                                   (filter (accepted (kp_match_threshold params)) withScores)))"
    using build kw by (simp add: getKnowledgeSearchPipeline_def)
  obtain withScores where ws: "mapE ?f candidates = Inr withScores"
    and ret: "returned = js_sort compare_combinedScore
                           (filter (accepted (kp_match_threshold params)) withScores)"
    using run unfolding p by (auto split: sum.splits)
  have len: "length withScores = length candidates"
    using ws by (rule mapE_Inr_length)
  have each: "\<forall>i < length candidates.
               s_doc (withScores ! i) = c_doc (candidates ! i)
             \<and> vectorScore_of hasVS (kp_embedding params) (candidates ! i)
                 = Inr (vectorScore (withScores ! i))
             \<and> keywordScore (withScores ! i) = keyword (c_doc (candidates ! i))
             \<and> combinedScore (withScores ! i)
                 = map_option (\<lambda>v. v * keywordScore (withScores ! i)) (vectorScore (withScores ! i))"
  proof (intro allI impI)
    fix i assume "i < length candidates"
    then have "?f (candidates ! i) = Inr (withScores ! i)"
      using ws by (rule mapE_Inr_nth [rotated])
    then obtain v where "vectorScore_of hasVS (kp_embedding params) (candidates ! i) = Inr v"
      and "withScores ! i =
             \<lparr>s_doc = c_doc (candidates ! i), vectorScore = v,
              keywordScore = keyword (c_doc (candidates ! i)),
              combinedScore = map_option (\<lambda>x. x * keyword (c_doc (candidates ! i))) v\<rparr>"
      by (auto split: sum.splits)
    then show "s_doc (withScores ! i) = c_doc (candidates ! i)
             \<and> vectorScore_of hasVS (kp_embedding params) (candidates ! i)
                 = Inr (vectorScore (withScores ! i))
             \<and> keywordScore (withScores ! i) = keyword (c_doc (candidates ! i))
             \<and> combinedScore (withScores ! i)
                 = map_option (\<lambda>v. v * keywordScore (withScores ! i)) (vectorScore (withScores ! i))"
      by simp
  qed
  from kw len each ret show ?thesis by blast
qed


lemma ensureConnection_connected: "isConnected st \<Longrightarrow> ensureConnection env st = (None, st)"
  by (simp add: ensureConnection_def)

lemma issue_simps [simp]:
  "isConnected (issue r st) = isConnected st"
  "hasVectorSearch (issue r st) = hasVectorSearch st"
  "db_memories (issue r st) = db_memories st"
  "db_knowledge (issue r st) = db_knowledge st"
  "db_cache (issue r st) = db_cache st"
  "levenshteinMatrix (issue r st) = levenshteinMatrix st"
  "console (issue r st) = console st"
  "requests (issue r st) = requests st @ [r]"
  by (simp_all add: issue_def)

lemma log_error_simps [simp]:
  "isConnected (log_error e st) = isConnected st"
  "hasVectorSearch (log_error e st) = hasVectorSearch st"
  "db_memories (log_error e st) = db_memories st"
  "db_knowledge (log_error e st) = db_knowledge st"
  "db_cache (log_error e st) = db_cache st"
  "levenshteinMatrix (log_error e st) = levenshteinMatrix st"
  "requests (log_error e st) = requests st"
  "console (log_error e st) = console st @ [e]"
  by (simp_all add: log_error_def)

lemma example_cosine:
  "cosineSimilarity [1, 0] [1, 0] = Some 1" "cosineSimilarity [1, 0] [0, 1] = Some 0"
  by (simp_all add: cosineSimilarity_def)

lemma toLower_examples:
  "toLower ''alpha'' = ''alpha''" "toLower ''Alpha'' = ''alpha''"
  "toLower ''beta'' = ''beta''" "toLower ''abc'' = ''abc''" "toLower ''a.c'' = ''a.c''"
  "toLower ''c++'' = ''c++''"
  by code_simp+

lemma toLowerCase_ascii:
  "list_all (\<lambda>c. (of_char c :: nat) < 128) s \<Longrightarrow> toLowerCase env s = toLower s"
  by (simp add: toLowerCase_def)

lemma toLowerCase_examples:
  "toLowerCase env ''alpha'' = ''alpha''" "toLowerCase env ''a.c'' = ''a.c''"
  "toLowerCase env ''c++'' = ''c++''"
proof -
  have "list_all (\<lambda>c. (of_char c :: nat) < 128) ''alpha''"
    "list_all (\<lambda>c. (of_char c :: nat) < 128) ''a.c''"
    "list_all (\<lambda>c. (of_char c :: nat) < 128) ''c++''"
    by code_simp+
  then show "toLowerCase env ''alpha'' = ''alpha''" "toLowerCase env ''a.c'' = ''a.c''"
    "toLowerCase env ''c++'' = ''c++''"
    by (simp_all only: toLowerCase_ascii toLower_examples)
qed

lemma consistent_comparator_single: "cmp a a = 0 \<Longrightarrow> consistent_comparator cmp [a]"
  by (simp add: consistent_comparator_def)

lemma Array_sort_single: "cmp a a = 0 \<Longrightarrow> Array_sort engine cmp [a] = [a]"
  by (simp add: Array_sort_def consistent_comparator_def js_sort_def)

lemma Array_sort_Nil: "Array_sort engine cmp [] = []"
  by (simp add: Array_sort_def consistent_comparator_def js_sort_def)

lemma compare_similarity_refl: "compare_similarity a a = 0"
  by (simp add: compare_similarity_def split: option.splits)

section \<open>The hybrid scorer\<close>

text \<open>
  What the scoring stages of the knowledge search do. On the native and on the fallback path
  the candidates of the path are each given a vectorScore, a keywordScore and their product,
  the combinedScore. The returned sequence holds exactly the candidates whose vectorScore is
  at least the threshold, or whose keywordScore exceeds 1.0 with a vectorScore of at least
  0.3, in descending order of combinedScore. For a query text without regular-expression
  syntax characters the keywordScore is 3.0 when the lower-cased \<^verbatim>\<open>content.text\<close> of
  the record contains the lower-cased query text and 1.0 otherwise, times 1.5 for a chunk,
  else 1.2 for a main record, else 1.0; without a query text the first factor is 1.0.
\<close>

lemma knowledge_pipeline_ranking:
  assumes "(fst (vectorSearchKnowledge env params st) = Inr returned
            \<and> candidates =
                map (\<lambda>(d, score). \<lparr>c_doc = d, c_vectorSearchScore = Some score\<rparr>)
                  (vectorSearch_knowledge env (kp_embedding params) (kp_match_count params * 2)
                     (kp_match_count params * 2) (db_knowledge st)))
         \<or> (fst (fallbackSearchKnowledge env params st) = Inr returned
            \<and> candidates =
                map (\<lambda>d. \<lparr>c_doc = d, c_vectorSearchScore = None\<rparr>)
                  (filter (\<lambda>d. kd_agentId d = Some (kp_agentId params)
                               \<or> (kd_isShared d \<and> kd_agentId d = None))
                     (db_knowledge st)))"
  shows "\<exists>withScores.
           length withScores = length candidates
         \<and> (\<forall>i < length candidates.
               s_doc (withScores ! i) = c_doc (candidates ! i)
             \<and> vectorScore_of (hasVectorSearch st) (kp_embedding params) (candidates ! i)
                 = Inr (vectorScore (withScores ! i)))
         \<and> mset returned =
             filter_mset
               (\<lambda>s. \<exists>v. vectorScore s = Some v
                        \<and> (v \<ge> kp_match_threshold params \<or> (keywordScore s > 1.0 \<and> v \<ge> 0.3)))
               (mset withScores)
         \<and> sorted_wrt (\<lambda>a b. combinedScore b \<le> combinedScore a) returned
         \<and> (\<forall>s \<in> set withScores.
               combinedScore s = map_option (\<lambda>v. v * keywordScore s) (vectorScore s)
             \<and> (truthy (kp_searchText params) = None \<longrightarrow>
                   keywordScore s =
                     1.0 * (if metadata_flag (kd_content (s_doc s)) ''isChunk'' then 1.5
                            else if metadata_flag (kd_content (s_doc s)) ''isMain'' then 1.2
                            else 1.0))
             \<and> (\<forall>q. truthy (kp_searchText params) = Some q
                     \<and> \<not> list_ex regex_syntax_character (toLowerCase env q) \<longrightarrow>
                   keywordScore s =
                     (if contains (toLower (content_text (kd_content (s_doc s)))) (toLowerCase env q)
                      then 3.0 else 1.0)
                     * (if metadata_flag (kd_content (s_doc s)) ''isChunk'' then 1.5
                        else if metadata_flag (kd_content (s_doc s)) ''isMain'' then 1.2
                        else 1.0)))"
proof -
  obtain pipeline where build: "getKnowledgeSearchPipeline env (hasVectorSearch st) params = Inr pipeline"
    and run: "pipeline candidates = Inr returned"
    using assms
    by (auto simp: vectorSearchKnowledge_def fallbackSearchKnowledge_def Let_def
        split: sum.splits option.splits)
  from pipeline_result [OF build run] obtain withScores keyword where
    kw: "calculateKeywordScore env (kp_searchText params) = Inr keyword"
    and len: "length withScores = length candidates"
    and each: "\<forall>i < length candidates.
               s_doc (withScores ! i) = c_doc (candidates ! i)
             \<and> vectorScore_of (hasVectorSearch st) (kp_embedding params) (candidates ! i)
                 = Inr (vectorScore (withScores ! i))
             \<and> keywordScore (withScores ! i) = keyword (c_doc (candidates ! i))
             \<and> combinedScore (withScores ! i)
                 = map_option (\<lambda>v. v * keywordScore (withScores ! i)) (vectorScore (withScores ! i))"
    and ret: "returned = js_sort compare_combinedScore
                           (filter (accepted (kp_match_threshold params)) withScores)"
    by blast
  have m: "mset returned =
             filter_mset
               (\<lambda>s. \<exists>v. vectorScore s = Some v
                        \<and> (v \<ge> kp_match_threshold params \<or> (keywordScore s > 1.0 \<and> v \<ge> 0.3)))
               (mset withScores)"
    unfolding ret by (simp add: mset_js_sort accepted_rule [abs_def])
  have srt: "sorted_wrt (\<lambda>a b. combinedScore b \<le> combinedScore a) returned"
    unfolding ret by (rule sorted_js_sort) (rule compare_combinedScore_le)
  have kws: "\<forall>s \<in> set withScores.
               combinedScore s = map_option (\<lambda>v. v * keywordScore s) (vectorScore s)
             \<and> keywordScore s = keyword (s_doc s)"
  proof
    fix s assume "s \<in> set withScores"
    then obtain i where "i < length withScores" "s = withScores ! i"
      by (auto simp: in_set_conv_nth)
    with each len show "combinedScore s = map_option (\<lambda>v. v * keywordScore s) (vectorScore s)
             \<and> keywordScore s = keyword (s_doc s)"
      by simp
  qed
  have first: "\<forall>i < length candidates.
               s_doc (withScores ! i) = c_doc (candidates ! i)
             \<and> vectorScore_of (hasVectorSearch st) (kp_embedding params) (candidates ! i)
                 = Inr (vectorScore (withScores ! i))"
    using each by simp
  show ?thesis
  proof (intro exI [of _ withScores] conjI len first m srt ballI allI impI)
    fix s assume s: "s \<in> set withScores"
    show "combinedScore s = map_option (\<lambda>v. v * keywordScore s) (vectorScore s)"
      using kws s by simp
    {
      assume "truthy (kp_searchText params) = None"
      then show "keywordScore s =
                     1.0 * (if metadata_flag (kd_content (s_doc s)) ''isChunk'' then 1.5
                            else if metadata_flag (kd_content (s_doc s)) ''isMain'' then 1.2
                            else 1.0)"
        using kws s calculateKeywordScore_value [OF kw, of "s_doc s"] by simp
    }
    fix q assume "truthy (kp_searchText params) = Some q
                     \<and> \<not> list_ex regex_syntax_character (toLowerCase env q)"
    then show "keywordScore s =
                     (if contains (toLower (content_text (kd_content (s_doc s)))) (toLowerCase env q)
                      then 3.0 else 1.0)
                     * (if metadata_flag (kd_content (s_doc s)) ''isChunk'' then 1.5
                        else if metadata_flag (kd_content (s_doc s)) ''isMain'' then 1.2
                        else 1.0)"
      using kws s calculateKeywordScore_plain [OF kw, of q "s_doc s"] by simp
  qed
qed


section \<open>Acceptance by score\<close>

text \<open>
  Claim C1 at its failing inputs. \<^verbatim>\<open>searchMemories\<close> takes
  \<^verbatim>\<open>match_threshold\<close> and never reads it: on the fallback path the one stored memory,
  whose embedding is orthogonal to the query (cosine similarity 0), is returned under the
  threshold 0.95, though its score is below the threshold and below 0.3. In the knowledge
  search the query text is compiled as a regular expression without escaping: the query
  text \<^verbatim>\<open>a.c\<close> gives the record with text \<^verbatim>\<open>abc\<close> the factor 3.0, though the text
  does not contain the query text, and the query text \<^verbatim>\<open>c++\<close> makes
  \<^verbatim>\<open>searchKnowledge\<close> raise a SyntaxError instead of returning candidates.
\<close>

theorem searchMemories_returns_below_threshold:
  "cosineSimilarity (sp_embedding example_search_params) [0, 1] = Some 0
   \<and> fst (searchMemories example_env example_search_params example_adapter) =
       Inr [\<lparr>fm_doc = example_memory_doc ''m1'' (Some [0, 1])
                       (JObject [(''content'', JObject [(''text'', JString ''hello'')]),
                                 (''text'', JString ''hello'')]),
             fm_similarity = Some (Some 0)\<rparr>]
   \<and> \<not> (0 \<ge> sp_match_threshold example_search_params)
   \<and> \<not> ((0 :: real) \<ge> 0.3)
   \<and> (case calculateKeywordScore (example_env\<lparr>regex_engine := example_regex_engine\<rparr>)
              (Some ''a.c'') of
         Inl e \<Rightarrow> None
       | Inr keyword \<Rightarrow> Some (keyword (example_knowledge_doc ''k3'' [1, 0] ''abc''))) = Some 3
   \<and> \<not> contains (toLower ''abc'') ''a.c''
   \<and> fst (searchKnowledge (example_env\<lparr>regex_engine := example_regex_engine\<rparr>)
            (example_knowledge_params\<lparr>kp_searchText := Some ''c++''\<rparr>) example_adapter)
       = Inl SyntaxError"
proof -
  let ?env = "example_env\<lparr>regex_engine := example_regex_engine\<rparr>"
  have l: "toLower ''abc'' = ''abc''" "toLowerCase ?env ''a.c'' = ''a.c''"
    "toLowerCase ?env ''c++'' = ''c++''"
    by (simp_all only: toLower_examples toLowerCase_examples)
  have m: "example_regex_engine ''a.c'' = Inr (\<lambda>input. list_ex (\<lambda>i. take 1 (drop i input) = ''a''
                \<and> take 1 (drop (i + 2) input) = ''c'') [0..<length input])"
    "example_regex_engine ''c++'' = Inl SyntaxError"
    by (simp_all add: example_regex_engine_def)
  have k: "(case calculateKeywordScore ?env (Some ''a.c'') of
         Inl e \<Rightarrow> None
       | Inr keyword \<Rightarrow> Some (keyword (example_knowledge_doc ''k3'' [1, 0] ''abc''))) = Some 3"
    by (simp add: calculateKeywordScore_def truthy_def RegExp_def regex_syntax_character_def
        l m example_knowledge_doc_def content_text_def json_get_def metadata_flag_def
        upt_rec [of 0])
  have c: "\<not> contains (toLower ''abc'') ''a.c''"
    by (simp add: l)
  have p: "calculateKeywordScore ?env (Some ''c++'') = Inl SyntaxError"
    by (simp add: calculateKeywordScore_def truthy_def RegExp_def regex_syntax_character_def
        l m)
  have fb: "\<And>st. fallbackSearchKnowledge ?env
                  (example_knowledge_params\<lparr>kp_searchText := Some ''c++''\<rparr>) st
                = (Inl SyntaxError, st)"
    by (simp add: fallbackSearchKnowledge_def getKnowledgeSearchPipeline_def p)
  have s: "fst (searchKnowledge ?env (example_knowledge_params\<lparr>kp_searchText := Some ''c++''\<rparr>)
                  example_adapter) = Inl SyntaxError"
    apply (simp only: searchKnowledge_def search_uncached_def fb)
    apply (simp add: ensureConnection_def getCache_def truthy_def example_env_def
        example_adapter_def example_knowledge_params_def cacheKey_def issue_def Let_def)
    done
  have f: "fst (searchMemories example_env example_search_params example_adapter) =
       Inr [\<lparr>fm_doc = example_memory_doc ''m1'' (Some [0, 1])
                       (JObject [(''content'', JObject [(''text'', JString ''hello'')]),
                                 (''text'', JString ''hello'')]),
             fm_similarity = Some (Some 0)\<rparr>]"
    by (simp add: searchMemories_def searchMemoriesFallback_def ensureConnection_def
        example_env_def example_adapter_def example_search_params_def example_memory_doc_def
        truthy_def matches_query_def example_cosine normalize_memory_def normalize_content_def
        normalize_created_def Array_sort_single compare_similarity_refl issue_def Let_def)
  show ?thesis
    using k c s f by (simp add: example_search_params_def example_cosine)
qed

section \<open>The vector score of the fallback knowledge search\<close>

lemma sqrt_25: "sqrt 25 = 5"
  by (rule real_sqrt_unique) simp_all

text \<open>
  Claim C2 at its failing input. On the fallback path the vectorScore is
  \<open>1 / (1 + cosine)\<close>: for the query \<open>[1, 0]\<close> the record with the same embedding
  (cosine 1) scores one half, the record with the orthogonal embedding \<open>[0, 1]\<close> (cosine 0)
  scores 1, and the record with embedding \<open>[-3, 4]\<close> (cosine \<open>-3/5\<close>) scores \<open>5/2\<close>. Under
  the threshold 0.6 and no query text the search returns the orthogonal record and drops the
  identical one.
\<close>

theorem fallback_vectorScore_decreases_with_similarity:
  "cosineSimilarity [1, 0] [1, 0] = Some 1
   \<and> vectorScore_of False [1, 0]
         \<lparr>c_doc = example_knowledge_doc ''k1'' [1, 0] ''Alpha'', c_vectorSearchScore = None\<rparr>
       = Inr (Some (1 / 2))
   \<and> cosineSimilarity [1, 0] [0, 1] = Some 0
   \<and> vectorScore_of False [1, 0]
         \<lparr>c_doc = example_knowledge_doc ''k2'' [0, 1] ''beta'', c_vectorSearchScore = None\<rparr>
       = Inr (Some 1)
   \<and> cosineSimilarity [1, 0] [- 3, 4] = Some (- 3 / 5)
   \<and> vectorScore_of False [1, 0]
         \<lparr>c_doc = example_knowledge_doc ''k3'' [- 3, 4] ''gamma'', c_vectorSearchScore = None\<rparr>
       = Inr (Some (5 / 2))
   \<and> fst (fallbackSearchKnowledge example_env
             (example_knowledge_params\<lparr>kp_match_threshold := 0.6, kp_searchText := None\<rparr>)
             example_adapter)
       = Inr [\<lparr>s_doc = example_knowledge_doc ''k2'' [0, 1] ''beta'', vectorScore = Some 1,
               keywordScore = 1, combinedScore = Some 1\<rparr>]"
proof -
  have c3: "cosineSimilarity [1, 0] [- 3, 4] = Some (- 3 / 5)"
    by (simp add: cosineSimilarity_def sqrt_25)
  have "fst (fallbackSearchKnowledge example_env
             (example_knowledge_params\<lparr>kp_match_threshold := 0.6, kp_searchText := None\<rparr>)
             example_adapter)
       = Inr [\<lparr>s_doc = example_knowledge_doc ''k2'' [0, 1] ''beta'', vectorScore = Some 1,
               keywordScore = 1, combinedScore = Some 1\<rparr>]"
    by (simp add: fallbackSearchKnowledge_def getKnowledgeSearchPipeline_def
        calculateKeywordScore_def truthy_def example_env_def example_adapter_def
        example_knowledge_params_def example_knowledge_doc_def vectorScore_of_def
        example_cosine content_text_def json_get_def metadata_flag_def accepted_def
        js_sort_def compare_combinedScore_def issue_def Let_def)
  then show ?thesis
    by (simp add: vectorScore_of_def example_knowledge_doc_def example_cosine c3)
qed

section \<open>Search entry points and the capability flag\<close>

text \<open>
  Claim C6 at its failing input. With the flag reading fallback-only,
  \<^verbatim>\<open>searchMemories\<close> issues a plain find, while
  \<^verbatim>\<open>searchMemoriesByEmbedding\<close> issues the native vector-search aggregation; when the
  store rejects that request the error reaches the caller.
\<close>

theorem searchMemoriesByEmbedding_ignores_capability_flag:
  "\<not> hasVectorSearch example_adapter
   \<and> requests (snd (searchMemories example_env example_search_params example_adapter))
       = [Find ''memories'']
   \<and> requests (snd (searchMemoriesByEmbedding example_env [1, 0]
                       \<lparr>ep_match_threshold = Some 0.95, ep_count = Some 1,
                        ep_roomId = Some ''room'', ep_agentId = ''agent'',
                        ep_unique = Some True, ep_tableName = ''messages''\<rparr>
                       example_adapter))
       = [NativeVectorSearch ''memories'']
   \<and> fst (searchMemoriesByEmbedding
            (example_env\<lparr>store_fault :=
               (\<lambda>r. if r = NativeVectorSearch ''memories'' then Some (StoreError 1) else None)\<rparr>)
            [1, 0]
            \<lparr>ep_match_threshold = Some 0.95, ep_count = Some 1,
             ep_roomId = Some ''room'', ep_agentId = ''agent'',
             ep_unique = Some True, ep_tableName = ''messages''\<rparr>
            example_adapter)
       = Inl (StoreError 1)"
  by (simp add: searchMemories_def searchMemoriesFallback_def searchMemoriesByEmbedding_def
      aggregate_vectorSearch_memories_def ensureConnection_def
      example_env_def example_adapter_def example_search_params_def example_memory_doc_def
      truthy_def matches_query_def example_cosine normalize_memory_def normalize_content_def
      normalize_created_def Array_sort_single compare_similarity_refl issue_def Let_def)

section \<open>Relevance scoring in getCachedEmbeddings\<close>

text \<open>
  Claim C8 at its failing input. Of two candidates the first has no
  \<^verbatim>\<open>content.content.text\<close>, so its scoring throws; the catch block puts an empty array in
  its place, and the returned list holds that empty array beside the scored record.
\<close>

theorem getCachedEmbeddings_keeps_placeholder:
  "fst (getCachedEmbeddings example_env
          \<lparr>query_table_name = ''messages'', query_threshold = 0, query_input = ''hallo'',
           query_field_name = ''content'', query_field_sub_name = ''text'',
           query_match_count = 2\<rparr>
          (example_adapter\<lparr>db_memories :=
             [example_memory_doc ''m0'' (Some [1, 0]) (JObject [(''text'', JString ''hello'')]),
              example_memory_doc ''m1'' (Some [0, 1])
                (JObject [(''content'', JObject [(''text'', JString ''hello'')]),
                          (''text'', JString ''hello'')])]\<rparr>))
     = Inr [EmptyArray, Scored (Some [0, 1]) (Some 1)]"
proof -
  have "fst (calculateLevenshteinDistanceOptimized ''hallo'' ''hello'' []) = Inr (Some 1)"
    by code_simp
  then obtain M where M: "calculateLevenshteinDistanceOptimized ''hallo'' ''hello'' []
                            = (Inr (Some 1), M)"
    by (cases "calculateLevenshteinDistanceOptimized ''hallo'' ''hello'' []") auto
  show ?thesis
    by (simp add: getCachedEmbeddings_def ensureConnection_def example_adapter_def
        example_env_def example_memory_doc_def score_memory_def js_property_def
        levenshtein_of_value_def Array_sort_def consistent_comparator_def js_sort_def
        compare_levenshtein_def levenshtein_score_def issue_def log_error_def M Let_def)
qed

section \<open>The write path\<close>

lemma searchMemoriesFallback_frame:
  assumes "isConnected st" and "searchMemoriesFallback env e q l st = (r, st')"
  shows "st' = issue (Find ''memories'') st"
  using assms
  by (auto simp: searchMemoriesFallback_def ensureConnection_connected Let_def
      split: option.splits sum.splits)

lemma aggregate_vectorSearch_memories_frame:
  assumes "aggregate_vectorSearch_memories env e n l q st = (r, st')"
  shows "st' = issue (NativeVectorSearch ''memories'') st"
  using assms
  by (auto simp: aggregate_vectorSearch_memories_def Let_def split: option.splits)

lemma searchMemories_frame:
  assumes conn: "isConnected st" and run: "searchMemories env p st = (r, st')"
  shows "db_memories st' = db_memories st \<and> isConnected st'"
proof (cases "hasVectorSearch st")
  case False
  with conn run have "searchMemoriesFallback env (sp_embedding p)
        \<lparr>mq_type = sp_tableName p, mq_roomId = Some (sp_roomId p),
         mq_unique = sp_unique p, mq_agentId = truthy (sp_agentId p)\<rparr>
        (Some (sp_match_count p)) st = (r, st')"
    by (simp add: searchMemories_def ensureConnection_connected Let_def)
  from searchMemoriesFallback_frame [OF conn this] conn show ?thesis by simp
next
  case True
  obtain r1 st1 where agg: "aggregate_vectorSearch_memories env (sp_embedding p)
        (sp_match_count p * 2) (Some (sp_match_count p))
        \<lparr>mq_type = sp_tableName p, mq_roomId = Some (sp_roomId p),
         mq_unique = sp_unique p, mq_agentId = truthy (sp_agentId p)\<rparr> st = (r1, st1)"
    by (cases "aggregate_vectorSearch_memories env (sp_embedding p)
        (sp_match_count p * 2) (Some (sp_match_count p))
        \<lparr>mq_type = sp_tableName p, mq_roomId = Some (sp_roomId p),
         mq_unique = sp_unique p, mq_agentId = truthy (sp_agentId p)\<rparr> st")
  have st1: "st1 = issue (NativeVectorSearch ''memories'') st"
    using agg by (rule aggregate_vectorSearch_memories_frame)
  have c1: "\<And>e. isConnected (log_error e st1)" using st1 conn by simp
  consider (direct) "st' = st1"
    | (fallback) e where "searchMemoriesFallback env (sp_embedding p)
        \<lparr>mq_type = sp_tableName p, mq_roomId = Some (sp_roomId p),
         mq_unique = sp_unique p, mq_agentId = truthy (sp_agentId p)\<rparr>
        (Some (sp_match_count p)) (log_error e st1) = (r, st')"
    using run conn True agg
    by (auto simp: searchMemories_def ensureConnection_connected Let_def split: sum.splits)
  then show ?thesis
  proof cases
    case direct
    with st1 conn show ?thesis by simp
  next
    case fallback
    from searchMemoriesFallback_frame [OF c1 this] st1 conn show ?thesis by simp
  qed
qed

lemma insertOne_memories_ok:
  "store_fault env (InsertOne ''memories'') = None \<Longrightarrow>
   insertOne_memories env doc st =
     (None, (issue (InsertOne ''memories'') st)\<lparr>db_memories := db_memories st @ [doc]\<rparr>)"
  by (simp add: insertOne_memories_def Let_def)

lemma insertOne_memories_fails:
  "store_fault env (InsertOne ''memories'') = Some e \<Longrightarrow>
   insertOne_memories env doc st = (Some e, issue (InsertOne ''memories'') st)"
  by (simp add: insertOne_memories_def Let_def)

text \<open>
  Claim C5 at its failing input. The store holds one record, unique, of the table, room and
  agent of the new record, with embedding \<open>[0, 1]\<close>. The new record has the embedding
  \<open>[1, 0]\<close>: the cosine similarity of the two is 0, so no stored record comes near the
  threshold 0.95 that \<^verbatim>\<open>createMemory\<close> passes. \<^verbatim>\<open>searchMemories\<close>, which never
  reads the threshold, returns the stored record, and the new record is stored as not unique.
  Over an empty collection the same record is stored as unique, and so is, over the example
  store, the record without an embedding, for which the insert is the only request.
\<close>

theorem createMemory_marks_dissimilar_record_duplicate:
  "db_memories example_adapter =
     [example_memory_doc ''m1'' (Some [0, 1])
        (JObject [(''content'', JObject [(''text'', JString ''hello'')]),
                  (''text'', JString ''hello'')])]
   \<and> cosineSimilarity [1, 0] [0, 1] = Some 0
   \<and> \<not> ((0 :: real) \<ge> 0.95)
   \<and> fst (createMemory example_env (example_memory (Some [1, 0])) ''messages'' example_adapter)
       = Inr ()
   \<and> db_memories (snd (createMemory example_env (example_memory (Some [1, 0])) ''messages''
                         example_adapter))
       = [example_memory_doc ''m1'' (Some [0, 1])
            (JObject [(''content'', JObject [(''text'', JString ''hello'')]),
                      (''text'', JString ''hello'')]),
          \<lparr>md_id = ''new'', md_type = ''messages'',
           md_content = JObject [(''content'', JObject [(''text'', JString ''hello'')]),
                                 (''text'', JString ''hello'')],
           md_embedding = Some [1, 0], md_userId = ''user'', md_roomId = ''room'',
           md_agentId = ''agent'', md_unique = False, md_createdAt = CreatedDate 5\<rparr>]
   \<and> db_memories (snd (createMemory example_env (example_memory (Some [1, 0])) ''messages''
                         (example_adapter\<lparr>db_memories := []\<rparr>)))
       = [\<lparr>md_id = ''new'', md_type = ''messages'',
           md_content = JObject [(''content'', JObject [(''text'', JString ''hello'')]),
                                 (''text'', JString ''hello'')],
           md_embedding = Some [1, 0], md_userId = ''user'', md_roomId = ''room'',
           md_agentId = ''agent'', md_unique = True, md_createdAt = CreatedDate 5\<rparr>]
   \<and> db_memories (snd (createMemory example_env (example_memory None) ''messages''
                         example_adapter))
       = [example_memory_doc ''m1'' (Some [0, 1])
            (JObject [(''content'', JObject [(''text'', JString ''hello'')]),
                      (''text'', JString ''hello'')]),
          \<lparr>md_id = ''new'', md_type = ''messages'',
           md_content = JObject [(''content'', JObject [(''text'', JString ''hello'')]),
                                 (''text'', JString ''hello'')],
           md_embedding = None, md_userId = ''user'', md_roomId = ''room'',
           md_agentId = ''agent'', md_unique = True, md_createdAt = CreatedDate 5\<rparr>]
   \<and> requests (snd (createMemory example_env (example_memory None) ''messages''
                       example_adapter))
       = [InsertOne ''memories'']"
proof -
  have search: "searchMemories example_env
     \<lparr>sp_tableName = ''messages'', sp_roomId = ''room'', sp_agentId = Some ''agent'',
      sp_embedding = [1, 0], sp_match_threshold = 0.95, sp_match_count = 1,
      sp_unique = True\<rparr> example_adapter
   = (Inr [\<lparr>fm_doc = example_memory_doc ''m1'' (Some [0, 1])
                       (JObject [(''content'', JObject [(''text'', JString ''hello'')]),
                                 (''text'', JString ''hello'')]),
            fm_similarity = Some (Some 0)\<rparr>],
      issue (Find ''memories'') example_adapter)"
    by (simp add: searchMemories_def searchMemoriesFallback_def ensureConnection_def
        example_env_def example_adapter_def example_memory_doc_def
        truthy_def matches_query_def example_cosine normalize_memory_def
        normalize_content_def normalize_created_def Array_sort_single compare_similarity_refl
        issue_def Let_def)
  have conn: "isConnected example_adapter" by (simp add: example_adapter_def)
  have ins: "store_fault example_env (InsertOne ''memories'') = None"
    by (simp add: example_env_def)
  have run: "createMemory example_env (example_memory (Some [1, 0])) ''messages'' example_adapter
      = (Inr (), (issue (InsertOne ''memories'') (issue (Find ''memories'') example_adapter))
                   \<lparr>db_memories := db_memories (issue (Find ''memories'') example_adapter)
                      @ [new_memory_doc example_env (example_memory (Some [1, 0]))
                           ''messages'' False]\<rparr>)"
    using search
    by (simp add: createMemory_def ensureConnection_connected [OF conn] example_memory_def
        insertOne_memories_ok [OF ins])
  have doc: "new_memory_doc example_env (example_memory (Some [1, 0])) ''messages'' False
      = \<lparr>md_id = ''new'', md_type = ''messages'',
         md_content = JObject [(''content'', JObject [(''text'', JString ''hello'')]),
                               (''text'', JString ''hello'')],
         md_embedding = Some [1, 0], md_userId = ''user'', md_roomId = ''room'',
         md_agentId = ''agent'', md_unique = False, md_createdAt = CreatedDate 5\<rparr>"
    by (simp add: new_memory_doc_def example_memory_def stored_content_def object_set_def)
  have db: "db_memories example_adapter =
     [example_memory_doc ''m1'' (Some [0, 1])
        (JObject [(''content'', JObject [(''text'', JString ''hello'')]),
                  (''text'', JString ''hello'')])]"
    by (simp add: example_adapter_def)
  have empty: "db_memories (snd (createMemory example_env (example_memory (Some [1, 0]))
                         ''messages'' (example_adapter\<lparr>db_memories := []\<rparr>)))
       = [\<lparr>md_id = ''new'', md_type = ''messages'',
           md_content = JObject [(''content'', JObject [(''text'', JString ''hello'')]),
                                 (''text'', JString ''hello'')],
           md_embedding = Some [1, 0], md_userId = ''user'', md_roomId = ''room'',
           md_agentId = ''agent'', md_unique = True, md_createdAt = CreatedDate 5\<rparr>]"
    by (simp add: createMemory_def searchMemories_def searchMemoriesFallback_def
        ensureConnection_def insertOne_memories_def new_memory_doc_def stored_content_def
        object_set_def example_env_def example_adapter_def example_memory_def truthy_def
        Array_sort_Nil issue_def Let_def)
  have none: "createMemory example_env (example_memory None) ''messages'' example_adapter
      = (Inr (), (issue (InsertOne ''memories'') example_adapter)
                   \<lparr>db_memories := db_memories example_adapter
                      @ [new_memory_doc example_env (example_memory None) ''messages'' True]\<rparr>)"
    by (simp add: createMemory_def ensureConnection_connected [OF conn] example_memory_def
        insertOne_memories_ok [OF ins])
  have doc': "new_memory_doc example_env (example_memory None) ''messages'' True
      = \<lparr>md_id = ''new'', md_type = ''messages'',
         md_content = JObject [(''content'', JObject [(''text'', JString ''hello'')]),
                               (''text'', JString ''hello'')],
         md_embedding = None, md_userId = ''user'', md_roomId = ''room'',
         md_agentId = ''agent'', md_unique = True, md_createdAt = CreatedDate 5\<rparr>"
    by (simp add: new_memory_doc_def example_memory_def stored_content_def object_set_def)
  have rq: "requests example_adapter = []"
    by (simp add: example_adapter_def)
  show ?thesis
    by (simp add: run doc db example_cosine empty none doc' rq)
qed

text \<open>
  Claim C10, as amended. On a connected adapter \<^verbatim>\<open>createMemory\<close> always resolves
  normally. When the insert is rejected no record is added and the error is logged, whether
  or not the record carries an embedding; when the similarity search fails the error is
  logged and nothing is inserted.
\<close>

theorem createMemory_swallows_failures:
  assumes conn: "isConnected st"
  shows "fst (createMemory env memory tableName st) = Inr ()
       \<and> (\<forall>e. store_fault env (InsertOne ''memories'') = Some e \<longrightarrow>
              db_memories (snd (createMemory env memory tableName st)) = db_memories st
            \<and> (mem_embedding memory = None \<longrightarrow>
                 console (snd (createMemory env memory tableName st)) = console st @ [e]))
       \<and> (\<forall>embedding e st'.
              mem_embedding memory = Some embedding
              \<and> searchMemories env
                   \<lparr>sp_tableName = tableName, sp_roomId = mem_roomId memory,
                    sp_agentId = Some (mem_agentId memory), sp_embedding = embedding,
                    sp_match_threshold = 0.95, sp_match_count = 1, sp_unique = True\<rparr> st
                  = (Inl e, st') \<longrightarrow>
              snd (createMemory env memory tableName st) = log_error e st'
            \<and> db_memories (log_error e st') = db_memories st)
       \<and> (\<forall>embedding similar e st'.
              mem_embedding memory = Some embedding
              \<and> searchMemories env
                   \<lparr>sp_tableName = tableName, sp_roomId = mem_roomId memory,
                    sp_agentId = Some (mem_agentId memory), sp_embedding = embedding,
                    sp_match_threshold = 0.95, sp_match_count = 1, sp_unique = True\<rparr> st
                  = (Inr similar, st')
              \<and> store_fault env (InsertOne ''memories'') = Some e \<longrightarrow>
              snd (createMemory env memory tableName st)
                = log_error e (issue (InsertOne ''memories'') st')
            \<and> console (snd (createMemory env memory tableName st)) = console st' @ [e]
            \<and> requests (snd (createMemory env memory tableName st))
                = requests st' @ [InsertOne ''memories''])"
proof (cases "mem_embedding memory")
  case None
  then show ?thesis
    using conn
    by (auto simp: createMemory_def ensureConnection_connected insertOne_memories_def Let_def
        split: option.splits)
next
  case (Some embedding)
  let ?p = "\<lparr>sp_tableName = tableName, sp_roomId = mem_roomId memory,
             sp_agentId = Some (mem_agentId memory), sp_embedding = embedding,
             sp_match_threshold = 0.95, sp_match_count = 1, sp_unique = True\<rparr>"
  obtain r st1 where run: "searchMemories env ?p st = (r, st1)"
    by (cases "searchMemories env ?p st")
  have fr: "db_memories st1 = db_memories st"
    using searchMemories_frame [OF conn run] by simp
  show ?thesis
  proof (cases r)
    case (Inl e)
    with Some run fr conn show ?thesis
      by (simp add: createMemory_def ensureConnection_connected)
  next
    case (Inr similar)
    with Some run fr conn show ?thesis
      by (auto simp: createMemory_def ensureConnection_connected insertOne_memories_def Let_def
          split: option.splits)
  qed
qed

text \<open>
  The store of the example with every insert rejected: a record without an embedding, and a
  record with the embedding \<open>[1, 0]\<close>, for which the similarity search runs first. Then
  the store with every find rejected, where the similarity search of that record fails.
\<close>

theorem createMemory_swallows_failures_witness:
  "isConnected example_adapter
   \<and> fst (createMemory
            (example_env\<lparr>store_fault :=
               (\<lambda>r. if r = InsertOne ''memories'' then Some (StoreError 2) else None)\<rparr>)
            (example_memory None) ''messages'' example_adapter) = Inr ()
   \<and> db_memories (snd (createMemory
            (example_env\<lparr>store_fault :=
               (\<lambda>r. if r = InsertOne ''memories'' then Some (StoreError 2) else None)\<rparr>)
            (example_memory None) ''messages'' example_adapter))
       = db_memories example_adapter
   \<and> console (snd (createMemory
            (example_env\<lparr>store_fault :=
               (\<lambda>r. if r = InsertOne ''memories'' then Some (StoreError 2) else None)\<rparr>)
            (example_memory None) ''messages'' example_adapter))
       = console example_adapter @ [StoreError 2]
   \<and> fst (createMemory
            (example_env\<lparr>store_fault :=
               (\<lambda>r. if r = InsertOne ''memories'' then Some (StoreError 2) else None)\<rparr>)
            (example_memory (Some [1, 0])) ''messages'' example_adapter) = Inr ()
   \<and> db_memories (snd (createMemory
            (example_env\<lparr>store_fault :=
               (\<lambda>r. if r = InsertOne ''memories'' then Some (StoreError 2) else None)\<rparr>)
            (example_memory (Some [1, 0])) ''messages'' example_adapter))
       = db_memories example_adapter
   \<and> console (snd (createMemory
            (example_env\<lparr>store_fault :=
               (\<lambda>r. if r = InsertOne ''memories'' then Some (StoreError 2) else None)\<rparr>)
            (example_memory (Some [1, 0])) ''messages'' example_adapter))
       = [StoreError 2]
   \<and> requests (snd (createMemory
            (example_env\<lparr>store_fault :=
               (\<lambda>r. if r = InsertOne ''memories'' then Some (StoreError 2) else None)\<rparr>)
            (example_memory (Some [1, 0])) ''messages'' example_adapter))
       = [Find ''memories'', InsertOne ''memories'']
   \<and> fst (createMemory
            (example_env\<lparr>store_fault :=
               (\<lambda>r. if r = Find ''memories'' then Some (StoreError 3) else None)\<rparr>)
            (example_memory (Some [1, 0])) ''messages'' example_adapter) = Inr ()
   \<and> snd (createMemory
            (example_env\<lparr>store_fault :=
               (\<lambda>r. if r = Find ''memories'' then Some (StoreError 3) else None)\<rparr>)
            (example_memory (Some [1, 0])) ''messages'' example_adapter)
       = example_adapter\<lparr>requests := [Find ''memories''], console := [StoreError 3]\<rparr>"
proof -
  let ?env = "example_env\<lparr>store_fault :=
               (\<lambda>r. if r = InsertOne ''memories'' then Some (StoreError 2) else None)\<rparr>"
  have conn: "isConnected example_adapter" by (simp add: example_adapter_def)
  have e1: "mem_embedding (example_memory (Some [1, 0])) = Some [1, 0]"
    and e2: "mem_embedding (example_memory None) = None"
    by (simp_all add: example_memory_def)
  have f: "store_fault ?env (InsertOne ''memories'') = Some (StoreError 2)"
    by simp
  have search: "searchMemories ?env
     \<lparr>sp_tableName = ''messages'', sp_roomId = mem_roomId (example_memory (Some [1, 0])),
      sp_agentId = Some (mem_agentId (example_memory (Some [1, 0]))), sp_embedding = [1, 0],
      sp_match_threshold = 0.95, sp_match_count = 1, sp_unique = True\<rparr> example_adapter
   = (Inr [\<lparr>fm_doc = example_memory_doc ''m1'' (Some [0, 1])
                       (JObject [(''content'', JObject [(''text'', JString ''hello'')]),
                                 (''text'', JString ''hello'')]),
            fm_similarity = Some (Some 0)\<rparr>],
      issue (Find ''memories'') example_adapter)"
    by (simp add: searchMemories_def searchMemoriesFallback_def ensureConnection_def
        example_env_def example_adapter_def example_memory_def example_memory_doc_def
        truthy_def matches_query_def example_cosine normalize_memory_def
        normalize_content_def normalize_created_def Array_sort_single compare_similarity_refl
        issue_def Let_def)
  have st': "console example_adapter = []" "requests example_adapter = []"
    by (simp_all add: example_adapter_def)
  note thm1 = createMemory_swallows_failures [OF conn, of ?env "example_memory None" "''messages''"]
  note thm2 = createMemory_swallows_failures [OF conn, of ?env "example_memory (Some [1, 0])"
      "''messages''"]
  have a: "fst (createMemory ?env (example_memory None) ''messages'' example_adapter) = Inr ()"
    "db_memories (snd (createMemory ?env (example_memory None) ''messages'' example_adapter))
       = db_memories example_adapter"
    "console (snd (createMemory ?env (example_memory None) ''messages'' example_adapter))
       = console example_adapter @ [StoreError 2]"
    using thm1 e2 f by blast+
  have b: "fst (createMemory ?env (example_memory (Some [1, 0])) ''messages'' example_adapter)
       = Inr ()"
    "db_memories (snd (createMemory ?env (example_memory (Some [1, 0])) ''messages''
                         example_adapter)) = db_memories example_adapter"
    using thm2 f by blast+
  have c: "console (snd (createMemory ?env (example_memory (Some [1, 0])) ''messages''
                           example_adapter))
             = console (issue (Find ''memories'') example_adapter) @ [StoreError 2]
           \<and> requests (snd (createMemory ?env (example_memory (Some [1, 0])) ''messages''
                           example_adapter))
             = requests (issue (Find ''memories'') example_adapter) @ [InsertOne ''memories'']"
    using thm2 e1 f search by blast
  let ?env3 = "example_env\<lparr>store_fault :=
               (\<lambda>r. if r = Find ''memories'' then Some (StoreError 3) else None)\<rparr>"
  have failing: "searchMemories ?env3
     \<lparr>sp_tableName = ''messages'', sp_roomId = mem_roomId (example_memory (Some [1, 0])),
      sp_agentId = Some (mem_agentId (example_memory (Some [1, 0]))), sp_embedding = [1, 0],
      sp_match_threshold = 0.95, sp_match_count = 1, sp_unique = True\<rparr> example_adapter
   = (Inl (StoreError 3), issue (Find ''memories'') example_adapter)"
    by (simp add: searchMemories_def searchMemoriesFallback_def ensureConnection_def
        example_adapter_def issue_def Let_def)
  note thm3 = createMemory_swallows_failures [OF conn, of ?env3 "example_memory (Some [1, 0])"
      "''messages''"]
  have d: "fst (createMemory ?env3 (example_memory (Some [1, 0])) ''messages'' example_adapter)
       = Inr ()"
    using thm3 by blast
  have "snd (createMemory ?env3 (example_memory (Some [1, 0])) ''messages'' example_adapter)
       = log_error (StoreError 3) (issue (Find ''memories'') example_adapter)"
    using thm3 e1 failing by blast
  then have e: "snd (createMemory ?env3 (example_memory (Some [1, 0])) ''messages''
                       example_adapter)
       = example_adapter\<lparr>requests := [Find ''memories''], console := [StoreError 3]\<rparr>"
    by (simp add: log_error_def issue_def example_adapter_def)
  show ?thesis
    using conn a b c d e by (simp add: st')
qed

text \<open>
  Claim C10 as stated fails: \<^verbatim>\<open>ensureConnection\<close> runs before the \<^verbatim>\<open>try\<close> block,
  so on an adapter that is not connected a failure to establish the connection is raised to
  the caller of \<^verbatim>\<open>createMemory\<close>.
\<close>

theorem createMemory_raises_counterexample:
  "fst (createMemory (example_env\<lparr>bootstrap_fault := Some (StoreError 7)\<rparr>)
          (example_memory None) ''messages'' (example_adapter\<lparr>isConnected := False\<rparr>))
     = Inl (StoreError 7)"
  by (simp add: createMemory_def ensureConnection_def init_def example_env_def
      example_adapter_def)

section \<open>Failure of the native query at execution time\<close>

text \<open>
  Both entry points catch a failure of the native query: \<^verbatim>\<open>searchMemories\<close> then is its
  fallback, run after the error is logged, and the \<^verbatim>\<open>try\<close> block of
  \<^verbatim>\<open>searchKnowledge\<close> goes on with what \<^verbatim>\<open>fallbackSearchKnowledge\<close> returns.
\<close>

lemma searchMemories_catches_native_failure:
  assumes "isConnected st" and "hasVectorSearch st"
    and "store_fault env (NativeVectorSearch ''memories'') = Some e"
  shows "searchMemories env p st =
           searchMemoriesFallback env (sp_embedding p)
             \<lparr>mq_type = sp_tableName p, mq_roomId = Some (sp_roomId p),
              mq_unique = sp_unique p, mq_agentId = truthy (sp_agentId p)\<rparr>
             (Some (sp_match_count p))
             (log_error e (issue (NativeVectorSearch ''memories'') st))"
  using assms
  by (simp add: searchMemories_def ensureConnection_connected
      aggregate_vectorSearch_memories_def Let_def)

lemma search_uncached_catches_native_failure:
  assumes "hasVectorSearch st" and "vectorSearchKnowledge env p st = (Inl e, st1)"
    and "fallbackSearchKnowledge env p (log_error e st1) = (Inl e', st2)"
  shows "search_uncached env p st = (Inl e', log_error e' st2)"
  using assms by (simp add: search_uncached_def)

lemma example_searchKnowledge_fallback_only:
  "fst (searchKnowledge example_env example_knowledge_params example_adapter)
     = Inr (Computed
         [\<lparr>ri_id = ''k1'', ri_agentId = Some ''agent'',
           ri_content = JObject [(''text'', JString ''Alpha'')], ri_embedding = Some [1, 0],
           ri_createdAt = CreatedNumber (Some 0), ri_similarity = 3 / 2\<rparr>,
          \<lparr>ri_id = ''k2'', ri_agentId = Some ''agent'',
           ri_content = JObject [(''text'', JString ''beta'')], ri_embedding = Some [0, 1],
           ri_createdAt = CreatedNumber (Some 0), ri_similarity = 1\<rparr>])"
  by (simp add: searchKnowledge_def search_uncached_def
      getCache_def setCache_def cacheKey_def
      fallbackSearchKnowledge_def getKnowledgeSearchPipeline_def calculateKeywordScore_def
      RegExp_def regex_syntax_character_def vectorScore_of_def accepted_def
      compare_combinedScore_def to_item_def JSON_stringify_def content_text_def
      metadata_flag_def json_get_def ensureConnection_def
      example_env_def example_adapter_def
      example_knowledge_params_def example_knowledge_doc_def
      truthy_def example_cosine toLowerCase_examples toLower_examples
      normalize_content_def normalize_created_def js_sort_def issue_def log_error_def Let_def)

text \<open>
  Claim C3 at its failing input. The flag reads native-available and the store rejects every
  native vector-search request. \<^verbatim>\<open>searchMemories\<close> catches the error and returns what its
  fallback returns on a fallback-only adapter. \<^verbatim>\<open>searchKnowledge\<close> catches the error
  too, but the pipeline of its fallback is built while the flag still reads native-available:
  it takes the vectorScore from the metadata of a vector search that did not run, no
  candidate passes the acceptance rule, and the call returns (and caches) the empty list,
  where the fallback-only adapter returns both records ranked.
\<close>

theorem searchKnowledge_fallback_after_native_failure:
  "fst (searchMemories
          (example_env\<lparr>store_fault :=
             (\<lambda>r. if r = NativeVectorSearch ''memories'' \<or> r = NativeVectorSearch ''knowledge''
                  then Some (StoreError 1) else None)\<rparr>)
          example_search_params (example_adapter\<lparr>hasVectorSearch := True\<rparr>))
     = fst (searchMemories example_env example_search_params example_adapter)
   \<and> fst (searchKnowledge example_env example_knowledge_params example_adapter)
     = Inr (Computed
         [\<lparr>ri_id = ''k1'', ri_agentId = Some ''agent'',
           ri_content = JObject [(''text'', JString ''Alpha'')], ri_embedding = Some [1, 0],
           ri_createdAt = CreatedNumber (Some 0), ri_similarity = 3 / 2\<rparr>,
          \<lparr>ri_id = ''k2'', ri_agentId = Some ''agent'',
           ri_content = JObject [(''text'', JString ''beta'')], ri_embedding = Some [0, 1],
           ri_createdAt = CreatedNumber (Some 0), ri_similarity = 1\<rparr>])
   \<and> fst (searchKnowledge
          (example_env\<lparr>store_fault :=
             (\<lambda>r. if r = NativeVectorSearch ''memories'' \<or> r = NativeVectorSearch ''knowledge''
                  then Some (StoreError 1) else None)\<rparr>)
          example_knowledge_params (example_adapter\<lparr>hasVectorSearch := True\<rparr>))
     = Inr (Computed [])
   \<and> console (snd (searchKnowledge
          (example_env\<lparr>store_fault :=
             (\<lambda>r. if r = NativeVectorSearch ''memories'' \<or> r = NativeVectorSearch ''knowledge''
                  then Some (StoreError 1) else None)\<rparr>)
          example_knowledge_params (example_adapter\<lparr>hasVectorSearch := True\<rparr>)))
     = [StoreError 1]"
  by (simp add: searchMemories_def searchMemoriesFallback_def
      aggregate_vectorSearch_memories_def searchKnowledge_def search_uncached_def
      getCache_def setCache_def cacheKey_def vectorSearchKnowledge_def
      fallbackSearchKnowledge_def getKnowledgeSearchPipeline_def calculateKeywordScore_def
      RegExp_def regex_syntax_character_def vectorScore_of_def accepted_def
      compare_combinedScore_def to_item_def JSON_stringify_def content_text_def
      metadata_flag_def json_get_def ensureConnection_def
      example_env_def example_adapter_def example_search_params_def
      example_knowledge_params_def example_memory_doc_def example_knowledge_doc_def
      truthy_def matches_query_def example_cosine toLowerCase_examples toLower_examples
      Array_sort_single compare_similarity_refl normalize_memory_def
      normalize_content_def normalize_created_def js_sort_def issue_def log_error_def Let_def)

section \<open>The result cache\<close>

lemma getCache_connected:
  assumes "isConnected st" and "store_fault env (FindOne ''cache'') = None"
  shows "getCache env key agentId st =
           (Inr (map_option cd_value
                   (find (\<lambda>c. cd_key c = key \<and> cd_agentId c = agentId
                               \<and> cd_expiresAt c > Date_now env) (db_cache st))),
            issue (FindOne ''cache'') st)"
  using assms by (simp add: getCache_def ensureConnection_connected Let_def)

lemma getCache_frame:
  assumes "isConnected st" and "getCache env key agentId st = (r, st')"
  shows "st' = issue (FindOne ''cache'') st"
  using assms
  by (auto simp: getCache_def ensureConnection_connected Let_def split: option.splits)

lemma vectorSearchKnowledge_frame:
  assumes "vectorSearchKnowledge env p st = (r, st')"
  shows "db_cache st' = db_cache st \<and> isConnected st' = isConnected st
       \<and> hasVectorSearch st' = hasVectorSearch st"
  using assms
  by (auto simp: vectorSearchKnowledge_def Let_def split: sum.splits option.splits)

lemma fallbackSearchKnowledge_frame:
  assumes "fallbackSearchKnowledge env p st = (r, st')"
  shows "db_cache st' = db_cache st \<and> isConnected st' = isConnected st"
  using assms
  by (auto simp: fallbackSearchKnowledge_def Let_def split: sum.splits option.splits)

lemma setCache_connected:
  assumes "isConnected st" and "store_fault env (UpdateOne ''cache'') = None"
  shows "setCache env key agentId val st =
           (Inr True,
            (issue (UpdateOne ''cache'') st)
              \<lparr>db_cache :=
                 updateOne_upsert (\<lambda>c. cd_key c = key \<and> cd_agentId c = agentId)
                   (\<lambda>c. c\<lparr>cd_value := val, cd_createdAt := Date_now env,
                          cd_expiresAt := Date_now env + 24 * 60 * 60 * 1000\<rparr>)
                   \<lparr>cd_key = key, cd_agentId = agentId, cd_value = val,
                    cd_createdAt = Date_now env,
                    cd_expiresAt = Date_now env + 24 * 60 * 60 * 1000\<rparr>
                   (db_cache st)\<rparr>)"
  using assms by (simp add: setCache_def ensureConnection_connected Let_def)

lemma search_uncached_wrote:
  assumes conn: "isConnected st" and ok: "store_fault env (UpdateOne ''cache'') = None"
    and run: "search_uncached env p st = (Inr (Computed items), st')"
  shows "isConnected st'
       \<and> db_cache st' =
           updateOne_upsert (\<lambda>c. cd_key c = cacheKey p \<and> cd_agentId c = kp_agentId p)
             (\<lambda>c. c\<lparr>cd_value := JSON_stringify env items, cd_createdAt := Date_now env,
                    cd_expiresAt := Date_now env + 24 * 60 * 60 * 1000\<rparr>)
             \<lparr>cd_key = cacheKey p, cd_agentId = kp_agentId p,
              cd_value = JSON_stringify env items, cd_createdAt = Date_now env,
              cd_expiresAt = Date_now env + 24 * 60 * 60 * 1000\<rparr>
             (db_cache st)"
proof -
  let ?search = "if hasVectorSearch st then
              (case vectorSearchKnowledge env p st of
                 (Inl e, st1) \<Rightarrow> fallbackSearchKnowledge env p (log_error e st1)
               | (Inr results, st1) \<Rightarrow> (Inr results, st1))
            else fallbackSearchKnowledge env p st"
  obtain r st2 where s: "?search = (r, st2)" by (cases ?search)
  have fr: "db_cache st2 = db_cache st \<and> isConnected st2"
  proof (cases "hasVectorSearch st")
    case False
    with s conn fallbackSearchKnowledge_frame [of env p st r st2] show ?thesis by simp
  next
    case True
    obtain r1 st1 where v: "vectorSearchKnowledge env p st = (r1, st1)"
      by (cases "vectorSearchKnowledge env p st")
    note f1 = vectorSearchKnowledge_frame [OF v]
    show ?thesis
    proof (cases r1)
      case (Inl e)
      with s True v have "fallbackSearchKnowledge env p (log_error e st1) = (r, st2)" by simp
      from fallbackSearchKnowledge_frame [OF this] f1 conn show ?thesis by simp
    next
      case (Inr results)
      with s True v have "st2 = st1" by simp
      with f1 conn show ?thesis by simp
    qed
  qed
  from run s obtain results where r: "r = Inr results"
    and m: "mapE (to_item env) results = Inr items"
    and c: "setCache env (cacheKey p) (kp_agentId p) (JSON_stringify env items) st2
              = (Inr True, st')"
    using fr ok
    by (auto simp: search_uncached_def setCache_connected split: sum.splits prod.splits)
  from c fr ok show ?thesis
    by (auto simp: setCache_connected)
qed

lemma find_after_upsert_fresh:
  assumes "\<And>c. P c \<Longrightarrow> P (f c) \<and> Q (f c)" and "P new \<and> Q new"
  shows "\<exists>c. find (\<lambda>c. P c \<and> Q c) (updateOne_upsert P f new cs) = Some c
             \<and> (c = new \<or> (\<exists>d. P d \<and> c = f d))"
  using assms by (induction cs) auto

lemma find_after_upsert_expired:
  assumes "\<And>c. P c \<Longrightarrow> \<not> Q (f c)" and "\<not> Q new"
    and "\<And>c. P c \<longleftrightarrow> k c = key" and "distinct (map k cs)"
  shows "find (\<lambda>c. P c \<and> Q c) (updateOne_upsert P f new cs) = None"
  using assms(4)
proof (induction cs)
  case Nil
  then show ?case using assms(2) by simp
next
  case (Cons c cs)
  show ?case
  proof (cases "P c")
    case True
    then have "k c = key" using assms(3) by simp
    with Cons.prems have "\<forall>d \<in> set cs. k d \<noteq> key" by (metis distinct.simps(2) image_eqI list.simps(9) set_map)
    then have "\<forall>d \<in> set cs. \<not> P d" using assms(3) by simp
    then have "find (\<lambda>c. P c \<and> Q c) cs = None" by (auto simp: find_None_iff)
    with True assms(1) show ?thesis by simp
  next
    case False
    with Cons show ?thesis by simp
  qed
qed


lemma upsert_keeps_keys_distinct:
  assumes "\<And>c. P c \<longleftrightarrow> k c = key" and "\<And>c. k (f c) = k c" and "k new = key"
    and "distinct (map k cs)"
  shows "distinct (map k (updateOne_upsert P f new cs))"
  using assms(4)
proof (induction cs)
  case Nil
  then show ?case by simp
next
  case (Cons c cs)
  have keys: "k ` set (updateOne_upsert P f new cs) \<subseteq> insert key (k ` set cs)"
    using assms(2,3) by (induction cs) auto
  show ?case
  proof (cases "P c")
    case True
    with Cons.prems assms(2) show ?thesis by simp
  next
    case False
    then have "k c \<noteq> key" using assms(1) by simp
    with False Cons keys show ?thesis by auto
  qed
qed

text \<open>The upsert of \<^verbatim>\<open>setCache\<close> keeps one entry per key and agent.\<close>

lemma setCache_keeps_keys_distinct:
  assumes "distinct (map (\<lambda>c. (cd_key c, cd_agentId c)) (db_cache st))"
    and "isConnected st"
  shows "distinct (map (\<lambda>c. (cd_key c, cd_agentId c))
                     (db_cache (snd (setCache env key agentId val st))))"
proof (cases "store_fault env (UpdateOne ''cache'')")
  case (Some e)
  with assms show ?thesis
    by (simp add: setCache_def ensureConnection_connected Let_def)
next
  case None
  have "distinct (map (\<lambda>c. (cd_key c, cd_agentId c))
          (updateOne_upsert (\<lambda>c. cd_key c = key \<and> cd_agentId c = agentId)
             (\<lambda>c. c\<lparr>cd_value := val, cd_createdAt := Date_now env,
                    cd_expiresAt := Date_now env + 24 * 60 * 60 * 1000\<rparr>)
             \<lparr>cd_key = key, cd_agentId = agentId, cd_value = val,
              cd_createdAt = Date_now env,
              cd_expiresAt = Date_now env + 24 * 60 * 60 * 1000\<rparr>
             (db_cache st)))"
    by (rule upsert_keeps_keys_distinct [where key = "(key, agentId)"])
      (use assms(1) in simp_all)
  with None assms(2) show ?thesis
    by (simp add: setCache_connected)
qed

lemma searchKnowledge_computed:
  assumes conn: "isConnected st"
    and first: "searchKnowledge env p st = (Inr (Computed items), st1)"
  shows "search_uncached env p (issue (FindOne ''cache'') st) = (Inr (Computed items), st1)"
proof -
  obtain rc st2 where g: "getCache env (cacheKey p) (kp_agentId p) st = (rc, st2)"
    by (cases "getCache env (cacheKey p) (kp_agentId p) st")
  have st2: "st2 = issue (FindOne ''cache'') st"
    using getCache_frame [OF conn g] .
  from first conn g st2 show ?thesis
    by (auto simp: searchKnowledge_def ensureConnection_connected
        split: sum.splits option.splits)
qed

text \<open>
  Claim C9. The cache holds at most one entry per key and agent, as the upserts of
  \<^verbatim>\<open>setCache\<close> leave it. After a call of \<^verbatim>\<open>searchKnowledge\<close> that computed
  \<open>items\<close> and wrote them to the cache at time \<open>Date_now env1\<close>, a call with the same
  parameters less than 24 hours later issues the cache lookup only and returns the parse of
  the string serialized then; from 24 hours on, the lookup finds nothing and the call runs
  the uncached search, which writes its result back.
\<close>

theorem searchKnowledge_cache_ttl:
  assumes conn: "isConnected st"
    and uniq: "distinct (map (\<lambda>c. (cd_key c, cd_agentId c)) (db_cache st))"
    and first: "searchKnowledge env1 params st = (Inr (Computed items), st1)"
    and wrote: "store_fault env1 (UpdateOne ''cache'') = None"
    and read: "store_fault env2 (FindOne ''cache'') = None"
  shows "(Date_now env2 < Date_now env1 + 24 * 60 * 60 * 1000 \<longrightarrow>
            searchKnowledge env2 params st1 =
              (case JSON_parse env2 (JSON_stringify env1 items) of
                 Inl e \<Rightarrow> Inl e
               | Inr parsed \<Rightarrow> Inr (FromCache parsed),
               issue (FindOne ''cache'') st1))
       \<and> (Date_now env1 + 24 * 60 * 60 * 1000 \<le> Date_now env2 \<longrightarrow>
            searchKnowledge env2 params st1 =
              search_uncached env2 params (issue (FindOne ''cache'') st1))"
proof -
  let ?P = "\<lambda>c. cd_key c = cacheKey params \<and> cd_agentId c = kp_agentId params"
  let ?Q = "\<lambda>c. Date_now env2 < cd_expiresAt c"
  let ?v = "JSON_stringify env1 items"
  let ?f = "\<lambda>c. c\<lparr>cd_value := ?v, cd_createdAt := Date_now env1,
                    cd_expiresAt := Date_now env1 + 24 * 60 * 60 * 1000\<rparr>"
  let ?new = "\<lparr>cd_key = cacheKey params, cd_agentId = kp_agentId params,
              cd_value = ?v, cd_createdAt = Date_now env1,
              cd_expiresAt = Date_now env1 + 24 * 60 * 60 * 1000\<rparr>"
  have c2: "isConnected (issue (FindOne ''cache'') st)" using conn by simp
  from search_uncached_wrote [OF c2 wrote searchKnowledge_computed [OF conn first]]
  have conn1: "isConnected st1"
    and cache1: "db_cache st1 = updateOne_upsert ?P ?f ?new (db_cache st)"
    by simp_all
  have lookup: "getCache env2 (cacheKey params) (kp_agentId params) st1 =
           (Inr (map_option cd_value (find (\<lambda>c. ?P c \<and> ?Q c) (db_cache st1))),
            issue (FindOne ''cache'') st1)"
    using getCache_connected [OF conn1 read] by (simp add: conj_assoc)
  have nonempty: "truthy (Some ?v) = Some ?v"
    by (simp add: truthy_def JSON_stringify_def)
  show ?thesis
  proof (intro conjI impI)
    assume fresh: "Date_now env2 < Date_now env1 + 24 * 60 * 60 * 1000"
    have "\<exists>c. find (\<lambda>c. ?P c \<and> ?Q c) (updateOne_upsert ?P ?f ?new (db_cache st)) = Some c
             \<and> (c = ?new \<or> (\<exists>d. ?P d \<and> c = ?f d))"
      by (rule find_after_upsert_fresh) (use fresh in simp_all)
    then obtain c where "find (\<lambda>c. ?P c \<and> ?Q c) (db_cache st1) = Some c" "cd_value c = ?v"
      unfolding cache1 by auto
    with lookup nonempty conn1 show "searchKnowledge env2 params st1 =
              (case JSON_parse env2 ?v of
                 Inl e \<Rightarrow> Inl e
               | Inr parsed \<Rightarrow> Inr (FromCache parsed),
               issue (FindOne ''cache'') st1)"
      by (simp add: searchKnowledge_def ensureConnection_connected split: sum.splits)
  next
    assume stale: "Date_now env1 + 24 * 60 * 60 * 1000 \<le> Date_now env2"
    have "find (\<lambda>c. ?P c \<and> ?Q c) (updateOne_upsert ?P ?f ?new (db_cache st)) = None"
    proof (rule find_after_upsert_expired
        [where k = "\<lambda>c. (cd_key c, cd_agentId c)" and key = "(cacheKey params, kp_agentId params)"])
      show "\<And>c. ?P c \<Longrightarrow> \<not> ?Q (?f c)" using stale by simp
      show "\<not> ?Q ?new" using stale by simp
      show "\<And>c. ?P c \<longleftrightarrow> (cd_key c, cd_agentId c) = (cacheKey params, kp_agentId params)"
        by simp
      show "distinct (map (\<lambda>c. (cd_key c, cd_agentId c)) (db_cache st))" by (rule uniq)
    qed
    then have "find (\<lambda>c. ?P c \<and> ?Q c) (db_cache st1) = None"
      unfolding cache1 .
    with lookup conn1 show "searchKnowledge env2 params st1 =
              search_uncached env2 params (issue (FindOne ''cache'') st1)"
      by (simp add: searchKnowledge_def ensureConnection_connected truthy_def)
  qed
qed


theorem searchKnowledge_cache_ttl_witness:
  "isConnected example_adapter
   \<and> searchKnowledge
        (example_env\<lparr>Date_now := 2000, JSON_parse := (\<lambda>s. Inr (JString s))\<rparr>)
        example_knowledge_params
        (snd (searchKnowledge example_env example_knowledge_params example_adapter))
     = (Inr (FromCache (JString ''[]'')),
        issue (FindOne ''cache'')
          (snd (searchKnowledge example_env example_knowledge_params example_adapter)))
   \<and> searchKnowledge (example_env\<lparr>Date_now := 1000 + 24 * 60 * 60 * 1000\<rparr>)
        example_knowledge_params
        (snd (searchKnowledge example_env example_knowledge_params example_adapter))
     = search_uncached (example_env\<lparr>Date_now := 1000 + 24 * 60 * 60 * 1000\<rparr>)
         example_knowledge_params
         (issue (FindOne ''cache'')
            (snd (searchKnowledge example_env example_knowledge_params example_adapter)))"
proof -
  let ?items = "[\<lparr>ri_id = ''k1'', ri_agentId = Some ''agent'',
           ri_content = JObject [(''text'', JString ''Alpha'')], ri_embedding = Some [1, 0],
           ri_createdAt = CreatedNumber (Some 0), ri_similarity = 3 / 2\<rparr>,
          \<lparr>ri_id = ''k2'', ri_agentId = Some ''agent'',
           ri_content = JObject [(''text'', JString ''beta'')], ri_embedding = Some [0, 1],
           ri_createdAt = CreatedNumber (Some 0), ri_similarity = 1\<rparr>]"
  have conn: "isConnected example_adapter" by (simp add: example_adapter_def)
  have uniq: "distinct (map (\<lambda>c. (cd_key c, cd_agentId c)) (db_cache example_adapter))"
    by (simp add: example_adapter_def)
  have first: "searchKnowledge example_env example_knowledge_params example_adapter
                 = (Inr (Computed ?items),
                    snd (searchKnowledge example_env example_knowledge_params example_adapter))"
    using example_searchKnowledge_fallback_only
    by (metis prod.collapse)
  have wrote: "store_fault example_env (UpdateOne ''cache'') = None"
    by (simp add: example_env_def)
  have read2: "store_fault (example_env\<lparr>Date_now := 2000, JSON_parse := (\<lambda>s. Inr (JString s))\<rparr>)
                 (FindOne ''cache'') = None"
    and read3: "store_fault (example_env\<lparr>Date_now := 1000 + 24 * 60 * 60 * 1000\<rparr>)
                 (FindOne ''cache'') = None"
    by (simp_all add: example_env_def)
  have t1: "Date_now example_env = 1000" by (simp add: example_env_def)
  have s: "JSON_stringify example_env ?items = ''[]''"
    by (simp add: JSON_stringify_def example_env_def)
  from searchKnowledge_cache_ttl [OF conn uniq first wrote read2] t1 s
  have hit: "searchKnowledge
        (example_env\<lparr>Date_now := 2000, JSON_parse := (\<lambda>s. Inr (JString s))\<rparr>)
        example_knowledge_params
        (snd (searchKnowledge example_env example_knowledge_params example_adapter))
     = (Inr (FromCache (JString ''[]'')),
        issue (FindOne ''cache'')
          (snd (searchKnowledge example_env example_knowledge_params example_adapter)))"
    by simp
  from searchKnowledge_cache_ttl [OF conn uniq first wrote read3] t1
  have miss: "searchKnowledge (example_env\<lparr>Date_now := 1000 + 24 * 60 * 60 * 1000\<rparr>)
        example_knowledge_params
        (snd (searchKnowledge example_env example_knowledge_params example_adapter))
     = search_uncached (example_env\<lparr>Date_now := 1000 + 24 * 60 * 60 * 1000\<rparr>)
         example_knowledge_params
         (issue (FindOne ''cache'')
            (snd (searchKnowledge example_env example_knowledge_params example_adapter)))"
    by simp
  from conn hit miss show ?thesis by blast
qed

end
